theory Spec2Isabelle
  imports
    Main
    "HOL-Library.Multiset"
    "HOL-Library.Sublist"
    "HOL-Library.Char_ord"
    "HOL-Library.List_Lexorder"
begin

section \<open>GF-7 split generation: the data model\<close>

text \<open>
  The development follows \<^verbatim>\<open>generate_gf7_splits.py\<close>. Identifiers are file names
  (\<^typ>\<open>string\<close>), a ratio is a Python \<^verbatim>\<open>int\<close> (\<^typ>\<open>int\<close>), and the exceptions the
  modelled operations can raise are values of \<open>py_error\<close>.
\<close>

datatype py_error = ZeroDivisionError | IndexError | AttributeError

type_synonym addr = nat

type_synonym path = "string list"

text \<open>
  The state a call can observe or change. Python lists are objects: \<open>heap\<close> holds the list
  objects by address (an address beyond the heap stands for an object that is no list),
  \<open>rng\<close> is the state of the module-level generator of \<^verbatim>\<open>random\<close>, \<open>dirs\<close> gives for a
  path that exists the names of the entries directly under it, \<open>files\<close> the contents of the
  files written, and \<open>stdout\<close> the lines printed by \<^verbatim>\<open>get_image_files\<close>.
\<close>

record 'g world =
  rng :: 'g
  heap :: "string list list"
  dirs :: "path \<Rightarrow> string list option"
  files :: "path \<Rightarrow> string option"
  stdout :: "string list"

section \<open>Library operations\<close>

subsection \<open>Integer division and slices\<close>

text \<open>Python's \<^verbatim>\<open>a // b\<close> on ints: floor division, \<^verbatim>\<open>ZeroDivisionError\<close> for \<open>b = 0\<close>.\<close>

definition floordiv :: "int \<Rightarrow> int \<Rightarrow> py_error + int" where
  "floordiv a b = (if b = 0 then Inl ZeroDivisionError else Inr (a div b))"

text \<open>
  A slice bound \<open>k\<close> on a list of length \<open>n\<close>: a negative bound counts from the end, and the
  result is clamped to \<open>0..n\<close>.
\<close>

definition slice_index :: "nat \<Rightarrow> int \<Rightarrow> nat" where
  "slice_index n k = (if k < 0 then nat (max 0 (int n + k)) else min n (nat k))"

definition slice_to :: "'a list \<Rightarrow> int \<Rightarrow> 'a list" where
  "slice_to xs k = take (slice_index (length xs) k) xs"

definition slice_from :: "'a list \<Rightarrow> int \<Rightarrow> 'a list" where
  "slice_from xs k = drop (slice_index (length xs) k) xs"

subsection \<open>The pseudorandom generator\<close>

text \<open>
  Modelled from the spec: \<^verbatim>\<open>random.seed\<close> and \<^verbatim>\<open>random.shuffle\<close> belong to Python's
  standard library, not to this repository. The generator enters as two parameters:
  \<open>sd a\<close> is the generator state after \<^verbatim>\<open>random.seed(a)\<close> (it depends on \<open>a\<close> alone), and
  \<open>rb g n\<close> is the draw below \<open>n\<close> from state \<open>g\<close> together with the next state. The shuffle
  is the Fisher-Yates loop the spec names, as the library writes it:
  \<^verbatim>\<open>for i in reversed(range(1, len(x))): j = randbelow(i + 1); x[i], x[j] = x[j], x[i]\<close>.
  An index outside the list raises \<^verbatim>\<open>IndexError\<close>.
\<close>

fun shuffle_from :: "('g \<Rightarrow> nat \<Rightarrow> nat \<times> 'g) \<Rightarrow> nat \<Rightarrow> 'g \<Rightarrow> 'a list \<Rightarrow> py_error + ('a list \<times> 'g)" where
  "shuffle_from rb 0 g x = Inr (x, g)"
| "shuffle_from rb (Suc k) g x =
     (case rb g (Suc k + 1) of (j, g') \<Rightarrow>
        if Suc k < length x \<and> j < length x
        then shuffle_from rb k g' (x[Suc k := x ! j, j := x ! Suc k])
        else Inl IndexError)"

definition shuffle :: "('g \<Rightarrow> nat \<Rightarrow> nat \<times> 'g) \<Rightarrow> 'g \<Rightarrow> 'a list \<Rightarrow> py_error + ('a list \<times> 'g)" where
  "shuffle rb g x = shuffle_from rb (length x - 1) g x"

text \<open>The library's contract for a draw: \<^verbatim>\<open>randbelow(n)\<close> lies in \<open>0..n-1\<close> for positive \<open>n\<close>.\<close>

definition randbelow_ok :: "('g \<Rightarrow> nat \<Rightarrow> nat \<times> 'g) \<Rightarrow> bool" where
  "randbelow_ok rb = (\<forall>g n. 0 < n \<longrightarrow> fst (rb g n) < n)"

text \<open>
  A sample generator (a linear congruential one) at which the theorems below are
  instantiated.
\<close>

definition lcg_seed :: "int \<Rightarrow> nat" where
  "lcg_seed a = nat \<bar>a\<bar>"

definition lcg_randbelow :: "nat \<Rightarrow> nat \<Rightarrow> nat \<times> nat" where
  "lcg_randbelow g n = (let g' = (g * 5 + 3) mod 64 in (g' mod n, g'))"

subsection \<open>Operations on the state\<close>

text \<open>\<^verbatim>\<open>random.seed(a)\<close>: the module-level generator is replaced by the seeded one.\<close>

definition random_seed :: "(int \<Rightarrow> 'g) \<Rightarrow> int \<Rightarrow> 'g world \<Rightarrow> 'g world" where
  "random_seed sd a w = w\<lparr>rng := sd a\<rparr>"

text \<open>A new list object: its address is the next free one.\<close>

definition alloc :: "'g world \<Rightarrow> string list \<Rightarrow> addr \<times> 'g world" where
  "alloc w xs = (length (heap w), w\<lparr>heap := heap w @ [xs]\<rparr>)"

text \<open>Reading the list object at an address.\<close>

definition deref :: "'g world \<Rightarrow> addr \<Rightarrow> py_error + string list" where
  "deref w a = (if a < length (heap w) then Inr (heap w ! a) else Inl AttributeError)"

text \<open>\<^verbatim>\<open>x.copy()\<close>: a new list object with the elements of \<open>x\<close>.\<close>

definition list_copy :: "'g world \<Rightarrow> addr \<Rightarrow> py_error + (addr \<times> 'g world)" where
  "list_copy w a = (case deref w a of Inl e \<Rightarrow> Inl e | Inr xs \<Rightarrow> Inr (alloc w xs))"

text \<open>
  \<^verbatim>\<open>random.shuffle(x)\<close>: the list object at \<open>a\<close> is permuted in place and the module-level
  generator advances by the draws made.
\<close>

definition random_shuffle :: "('g \<Rightarrow> nat \<Rightarrow> nat \<times> 'g) \<Rightarrow> 'g world \<Rightarrow> addr \<Rightarrow> py_error + 'g world" where
  "random_shuffle rb w a =
     (case deref w a of Inl e \<Rightarrow> Inl e | Inr xs \<Rightarrow>
      (case shuffle rb (rng w) xs of Inl e \<Rightarrow> Inl e | Inr (ys, g) \<Rightarrow>
        Inr (w\<lparr>rng := g, heap := (heap w)[a := ys]\<rparr>)))"

section \<open>The functions of the program\<close>

subsection \<open>\<^verbatim>\<open>generate_labeled_unlabeled_split\<close>\<close>

text \<open>
  The argument \<open>all_images\<close> is the address of the caller's list; the result holds the
  addresses of the two new lists and the state after the call. \<open>split_name\<close> is not used,
  as in the source. An exception ends the run, so no state is kept beside it.
\<close>

definition generate_labeled_unlabeled_split ::
  "(int \<Rightarrow> 'g) \<Rightarrow> ('g \<Rightarrow> nat \<Rightarrow> nat \<times> 'g) \<Rightarrow> 'g world \<Rightarrow> addr \<Rightarrow> int \<Rightarrow> string
     \<Rightarrow> py_error + ((addr \<times> addr) \<times> 'g world)" where
  "generate_labeled_unlabeled_split sd rb w all_images ratio split_name =
     (let w1 = random_seed sd 42 w in
      (case list_copy w1 all_images of Inl e \<Rightarrow> Inl e | Inr (shuffled, w2) \<Rightarrow>
      (case random_shuffle rb w2 shuffled of Inl e \<Rightarrow> Inl e | Inr w3 \<Rightarrow>
      (case deref w3 shuffled of Inl e \<Rightarrow> Inl e | Inr xs \<Rightarrow>
      (case floordiv (int (length xs)) ratio of Inl e \<Rightarrow> Inl e | Inr num_labeled \<Rightarrow>
        (let (labeled, w4) = alloc w3 (slice_to xs num_labeled);
             (unlabeled, w5) = alloc w4 (slice_from xs num_labeled)
         in Inr ((labeled, unlabeled), w5)))))))"

subsection \<open>\<^verbatim>\<open>create_split_line\<close>\<close>

text \<open>
  Python's \<^verbatim>\<open>s.replace(old, new)\<close>: the occurrences of \<open>old\<close> are replaced from left to
  right without overlap; an empty \<open>old\<close> matches before every character and at the end.
\<close>

function str_replace :: "string \<Rightarrow> string \<Rightarrow> string \<Rightarrow> string" where
  "str_replace old new s =
     (if old = [] then new @ concat (map (\<lambda>c. c # new) s)
      else if s = [] then []
      else if prefix old s then new @ str_replace old new (drop (length old) s)
      else hd s # str_replace old new (tl s))"
  by pat_completeness auto
termination
  by (relation "measure (\<lambda>(old, new, s). length s)") (auto simp: neq_Nil_conv)

declare str_replace.simps [simp del]

text \<open>
  The local \<open>base_name\<close> is computed and not used: both paths are built from
  \<open>image_name\<close>.
\<close>

definition create_split_line :: "string \<Rightarrow> string \<Rightarrow> string" where
  "create_split_line image_name split =
     (let base_name = str_replace ''.tif'' [] image_name
      in split @ ''/image/'' @ image_name @ '' '' @ split @ ''/label/'' @ image_name)"

subsection \<open>\<^verbatim>\<open>get_image_files\<close>\<close>

text \<open>
  A path is the list of the components joined by \<^verbatim>\<open>/\<close>; \<open>path_str\<close> is the text printed
  for it. \<^verbatim>\<open>glob("*.tif")\<close> keeps the entries of the directory whose name ends in
  \<^verbatim>\<open>.tif\<close>; \<^verbatim>\<open>sorted\<close> orders strings by code point, which on \<^typ>\<open>string\<close> is the
  lexicographic order of the bytes.
\<close>

fun path_str :: "path \<Rightarrow> string" where
  "path_str [] = ''.''"
| "path_str [c] = c"
| "path_str (c # cs) = c @ ''/'' @ path_str cs"

definition get_image_files :: "'g world \<Rightarrow> string \<Rightarrow> string \<Rightarrow> string list \<times> 'g world" where
  "get_image_files w base_dir split =
     (let image_dir = [base_dir, split, ''image''] in
      (case dirs w image_dir of
         None \<Rightarrow>
           ([], w\<lparr>stdout := stdout w @ [''Warning: '' @ path_str image_dir @ '' does not exist'']\<rparr>)
       | Some entries \<Rightarrow>
           (sort (filter (\<lambda>name. suffix ''.tif'' name) entries), w)))"

subsection \<open>\<^verbatim>\<open>main\<close>\<close>

text \<open>
  Writing one split file: \<^verbatim>\<open>open(file, "w")\<close> replaces the content of the file by one line
  for each identifier, each ended by a newline.
\<close>

definition split_file_text :: "string list \<Rightarrow> string \<Rightarrow> string" where
  "split_file_text imgs split = concat (map (\<lambda>img. create_split_line img split @ [CHR 0x0A]) imgs)"

definition write_split_file :: "'g world \<Rightarrow> path \<Rightarrow> string list \<Rightarrow> string \<Rightarrow> 'g world" where
  "write_split_file w file imgs split = w\<lparr>files := (files w)(file \<mapsto> split_file_text imgs split)\<rparr>"

text \<open>
  The block \<^verbatim>\<open>main\<close> repeats for the ratios 32, 64, 16, 8 and 4: one call of the
  partitioner on the training list, then \<^verbatim>\<open>labeled.txt\<close> and \<^verbatim>\<open>unlabeled.txt\<close> under the
  directory of the split.
\<close>

definition write_ratio_split ::
  "(int \<Rightarrow> 'g) \<Rightarrow> ('g \<Rightarrow> nat \<Rightarrow> nat \<times> 'g) \<Rightarrow> 'g world \<Rightarrow> addr \<Rightarrow> int \<Rightarrow> path
     \<Rightarrow> py_error + ((addr \<times> addr) \<times> 'g world)" where
  "write_ratio_split sd rb w train_images ratio split_dir =
     (case generate_labeled_unlabeled_split sd rb w train_images ratio ''Train'' of
        Inl e \<Rightarrow> Inl e
      | Inr ((labeled, unlabeled), w1) \<Rightarrow>
     (case deref w1 labeled of Inl e \<Rightarrow> Inl e | Inr ls \<Rightarrow>
     (case deref w1 unlabeled of Inl e \<Rightarrow> Inl e | Inr us \<Rightarrow>
        (let w2 = write_split_file w1 (split_dir @ [''labeled.txt'']) ls ''Train'';
             w3 = write_split_file w2 (split_dir @ [''unlabeled.txt'']) us ''Train''
         in Inr ((labeled, unlabeled), w3)))))"

text \<open>
  The block for \<^verbatim>\<open>small_1_32\<close> and \<^verbatim>\<open>small_1_64\<close>: the two lists of the parent split are
  cut by \<^verbatim>\<open>xs[:max(1, len(xs) // 100)]\<close> (\<open>small_variant\<close>) and written.
\<close>

definition small_variant :: "'a list \<Rightarrow> 'a list" where
  "small_variant xs = slice_to xs (max 1 (int (length xs) div 100))"

definition write_small_split :: "'g world \<Rightarrow> addr \<Rightarrow> addr \<Rightarrow> path \<Rightarrow> py_error + 'g world" where
  "write_small_split w labeled unlabeled small_dir =
     (case deref w labeled of Inl e \<Rightarrow> Inl e | Inr ls \<Rightarrow>
     (case deref w unlabeled of Inl e \<Rightarrow> Inl e | Inr us \<Rightarrow>
        (let small_labeled = small_variant ls;
             small_unlabeled = small_variant us;
             w1 = write_split_file w (small_dir @ [''labeled.txt'']) small_labeled ''Train'';
             w2 = write_split_file w1 (small_dir @ [''unlabeled.txt'']) small_unlabeled ''Train''
         in Inr w2)))"

text \<open>
  The driver. The lists that are only read (the enumerations, the small variants) are
  values; the training list becomes an object of the heap (\<open>train_list\<close> is its content,
  \<open>train_images\<close> its address), since the partitioner receives it by reference. The
  progress report \<^verbatim>\<open>main\<close> prints and its \<^verbatim>\<open>mkdir\<close> calls are left out: the files are
  kept by path, and no property below reads the report.
\<close>

definition main :: "(int \<Rightarrow> 'g) \<Rightarrow> ('g \<Rightarrow> nat \<Rightarrow> nat \<times> 'g) \<Rightarrow> 'g world \<Rightarrow> py_error + 'g world" where
  "main sd rb w =
     (let base_dir = ''data/gf-7-building-4bands'';
          output_dir = [''UniMatch-V2/splits/gf7-building''];
          (train_list, w1) = get_image_files w base_dir ''Train'';
          (train_images, w2) = alloc w1 train_list;
          (val_images, w3) = get_image_files w2 base_dir ''Val'';
          (test_images, w4) = get_image_files w3 base_dir ''Test'';
          w5 = write_split_file w4 (output_dir @ [''val.txt'']) val_images ''Val'';
          w6 = write_split_file w5 (output_dir @ [''test.txt'']) test_images ''Test'';
          w7 = write_split_file w6 (output_dir @ [''all'', ''labeled.txt'']) train_list ''Train''
      in
     (case write_ratio_split sd rb w7 train_images 32 (output_dir @ [''1_32'']) of
        Inl e \<Rightarrow> Inl e | Inr ((labeled_32, unlabeled_32), w8) \<Rightarrow>
     (case write_ratio_split sd rb w8 train_images 64 (output_dir @ [''1_64'']) of
        Inl e \<Rightarrow> Inl e | Inr ((labeled_64, unlabeled_64), w9) \<Rightarrow>
     (case write_ratio_split sd rb w9 train_images 16 (output_dir @ [''1_16'']) of
        Inl e \<Rightarrow> Inl e | Inr ((labeled_16, unlabeled_16), w10) \<Rightarrow>
     (case write_ratio_split sd rb w10 train_images 8 (output_dir @ [''1_8'']) of
        Inl e \<Rightarrow> Inl e | Inr ((labeled_8, unlabeled_8), w11) \<Rightarrow>
     (case write_ratio_split sd rb w11 train_images 4 (output_dir @ [''1_4'']) of
        Inl e \<Rightarrow> Inl e | Inr ((labeled_4, unlabeled_4), w12) \<Rightarrow>
     (case write_small_split w12 labeled_32 unlabeled_32 (output_dir @ [''small_1_32'']) of
        Inl e \<Rightarrow> Inl e | Inr w13 \<Rightarrow>
      write_small_split w13 labeled_64 unlabeled_64 (output_dir @ [''small_1_64'']))))))))"

section \<open>Observations\<close>

text \<open>The two lists a call of the partitioner returns, read in the state the call leaves.\<close>

definition result_lists ::
  "py_error + ((addr \<times> addr) \<times> 'g world) \<Rightarrow> py_error + (string list \<times> string list)" where
  "result_lists res =
     (case res of Inl e \<Rightarrow> Inl e | Inr ((labeled, unlabeled), w) \<Rightarrow>
     (case deref w labeled of Inl e \<Rightarrow> Inl e | Inr ls \<Rightarrow>
     (case deref w unlabeled of Inl e \<Rightarrow> Inl e | Inr us \<Rightarrow> Inr (ls, us))))"

section \<open>Sample inputs\<close>

text \<open>A state with one list of four identifiers, at address 0.\<close>

definition sample_world :: "nat world" where
  "sample_world =
     \<lparr>rng = 7, heap = [[''a.tif'', ''b.tif'', ''c.tif'', ''d.tif'']],
      dirs = (\<lambda>p. None), files = (\<lambda>p. None), stdout = []\<rparr>"

text \<open>
  A second state that holds the same four identifiers at another address, after other
  work (another generator state, another list, earlier output), a state whose list
  repeats an identifier, and a state whose list is empty.
\<close>

definition other_world :: "nat world" where
  "other_world =
     \<lparr>rng = 99, heap = [[''z.tif''], [''a.tif'', ''b.tif'', ''c.tif'', ''d.tif'']],
      dirs = (\<lambda>p. None), files = (\<lambda>p. None), stdout = [''earlier output'']\<rparr>"

definition empty_world :: "nat world" where
  "empty_world =
     \<lparr>rng = 3, heap = [[]], dirs = (\<lambda>p. None), files = (\<lambda>p. None), stdout = []\<rparr>"

definition dup_world :: "nat world" where
  "dup_world =
     \<lparr>rng = 0, heap = [[''a.tif'', ''a.tif'']],
      dirs = (\<lambda>p. None), files = (\<lambda>p. None), stdout = []\<rparr>"

text \<open>
  A state with a data directory: the training images hold four \<^verbatim>\<open>.tif\<close> files and one
  other file, the test images one file, and the validation directory is missing.
\<close>

definition disk_world :: "nat world" where
  "disk_world =
     \<lparr>rng = 5, heap = [],
      dirs = (\<lambda>p. if p = [''data/gf-7-building-4bands'', ''Train'', ''image'']
                   then Some [''d.tif'', ''b.tif'', ''notes.txt'', ''a.tif'', ''c.tif'']
                 else if p = [''data/gf-7-building-4bands'', ''Test'', ''image'']
                   then Some [''t.tif'']
                 else None),
      files = (\<lambda>p. None), stdout = []\<rparr>"

text \<open>
  The same directories and files in a later state: another generator state, another heap,
  earlier output.
\<close>

definition disk_world_later :: "nat world" where
  "disk_world_later = disk_world\<lparr>rng := 77, heap := [[''x.tif'']], stdout := [''earlier output'']\<rparr>"

section \<open>The files of a run, in closed form\<close>

text \<open>
  The files after a run of \<^verbatim>\<open>main\<close> that found the three enumerations \<open>train\<close>, \<open>val\<close> and
  \<open>test\<close> and whose shuffle of \<open>train\<close> gave \<open>ys\<close>, over the files \<open>fs\<close> before the run.
  The lemma \<open>main_effect\<close> below proves that \<^verbatim>\<open>main\<close> leaves exactly these.
\<close>

definition files_after_main ::
  "(path \<Rightarrow> string option) \<Rightarrow> string list \<Rightarrow> string list \<Rightarrow> string list \<Rightarrow> string list
     \<Rightarrow> (path \<Rightarrow> string option)" where
  "files_after_main fs train val test ys =
     (let out = ''UniMatch-V2/splits/gf7-building'';
          lab = (\<lambda>r. slice_to ys (int (length ys) div r));
          unl = (\<lambda>r. slice_from ys (int (length ys) div r));
          txt = (\<lambda>xs. split_file_text xs ''Train'')
      in fs
        ([out, ''val.txt''] \<mapsto> split_file_text val ''Val'',
         [out, ''test.txt''] \<mapsto> split_file_text test ''Test'',
         [out, ''all'', ''labeled.txt''] \<mapsto> txt train,
         [out, ''1_32'', ''labeled.txt''] \<mapsto> txt (lab 32),
         [out, ''1_32'', ''unlabeled.txt''] \<mapsto> txt (unl 32),
         [out, ''1_64'', ''labeled.txt''] \<mapsto> txt (lab 64),
         [out, ''1_64'', ''unlabeled.txt''] \<mapsto> txt (unl 64),
         [out, ''1_16'', ''labeled.txt''] \<mapsto> txt (lab 16),
         [out, ''1_16'', ''unlabeled.txt''] \<mapsto> txt (unl 16),
         [out, ''1_8'', ''labeled.txt''] \<mapsto> txt (lab 8),
         [out, ''1_8'', ''unlabeled.txt''] \<mapsto> txt (unl 8),
         [out, ''1_4'', ''labeled.txt''] \<mapsto> txt (lab 4),
         [out, ''1_4'', ''unlabeled.txt''] \<mapsto> txt (unl 4),
         [out, ''small_1_32'', ''labeled.txt''] \<mapsto> txt (small_variant (lab 32)),
         [out, ''small_1_32'', ''unlabeled.txt''] \<mapsto> txt (small_variant (unl 32)),
         [out, ''small_1_64'', ''labeled.txt''] \<mapsto> txt (small_variant (lab 64)),
         [out, ''small_1_64'', ''unlabeled.txt''] \<mapsto> txt (small_variant (unl 64))))"

section \<open>Facts on the library operations and the partitioner\<close>

lemma shuffle_from_ok:
  assumes "randbelow_ok rb"
  shows "k < length x \<or> k = 0 \<Longrightarrow>
         \<exists>ys g'. shuffle_from rb k g x = Inr (ys, g') \<and> mset ys = mset x"
proof (induction k arbitrary: g x)
  case 0
  then show ?case by simp
next
  case (Suc k)
  obtain j g1 where rbj: "rb g (Suc k + 1) = (j, g1)" by (cases "rb g (Suc k + 1)")
  from assms have "fst (rb g (Suc k + 1)) < Suc k + 1" unfolding randbelow_ok_def by blast
  with rbj have j: "j < Suc k + 1" by simp
  from Suc.prems have k: "Suc k < length x" by simp
  with j have jl: "j < length x" by simp
  let ?x' = "x[Suc k := x ! j, j := x ! Suc k]"
  have m: "mset ?x' = mset x" using k jl by (simp add: mset_swap)
  have "k < length ?x' \<or> k = 0" using k by simp
  from Suc.IH[OF this, of g1] obtain ys g' where
    "shuffle_from rb k g1 ?x' = Inr (ys, g')" "mset ys = mset ?x'" by blast
  with rbj k jl m show ?case by simp
qed

lemma shuffle_ok:
  assumes "randbelow_ok rb"
  shows "\<exists>ys g'. shuffle rb g x = Inr (ys, g') \<and> mset ys = mset x"
  unfolding shuffle_def
  by (rule shuffle_from_ok[OF assms]) (cases x, auto)

lemma shuffle_from_mset:
  "shuffle_from rb k g x = Inr (ys, g') \<Longrightarrow> mset ys = mset x"
proof (induction k arbitrary: g x)
  case 0
  then show ?case by simp
next
  case (Suc k)
  obtain j g1 where rbj: "rb g (Suc k + 1) = (j, g1)" by (cases "rb g (Suc k + 1)")
  from Suc.prems rbj have b: "Suc k < length x" "j < length x"
    and r: "shuffle_from rb k g1 (x[Suc k := x ! j, j := x ! Suc k]) = Inr (ys, g')"
    by (auto split: if_splits)
  from Suc.IH[OF r] b show ?case by (simp add: mset_swap)
qed

lemma shuffle_mset: "shuffle rb g x = Inr (ys, g') \<Longrightarrow> mset ys = mset x"
  unfolding shuffle_def by (rule shuffle_from_mset)

lemma shuffle_length: "shuffle rb g x = Inr (ys, g') \<Longrightarrow> length ys = length x"
  by (drule shuffle_mset) (rule mset_eq_length)

lemma split_char:
  assumes "deref w a = Inr xs" "shuffle rb (sd 42) xs = Inr (ys, g)" "r \<noteq> 0"
  shows "generate_labeled_unlabeled_split sd rb w a r nm =
     Inr ((length (heap w) + 1, length (heap w) + 2),
          w\<lparr>rng := g, heap := heap w @ [ys, slice_to ys (int (length ys) div r),
                                        slice_from ys (int (length ys) div r)]\<rparr>)"
  using assms
  by (simp add: generate_labeled_unlabeled_split_def random_seed_def list_copy_def alloc_def
        random_shuffle_def deref_def floordiv_def Let_def nth_append split: if_splits)

lemma split_fail_shuffle:
  assumes "deref w a = Inr xs" "shuffle rb (sd 42) xs = Inl e"
  shows "generate_labeled_unlabeled_split sd rb w a r nm = Inl e"
  using assms
  by (simp add: generate_labeled_unlabeled_split_def random_seed_def list_copy_def alloc_def
        random_shuffle_def deref_def floordiv_def Let_def nth_append split: if_splits)

lemma split_fail_zero:
  assumes "deref w a = Inr xs" "shuffle rb (sd 42) xs = Inr (ys, g)"
  shows "generate_labeled_unlabeled_split sd rb w a 0 nm = Inl ZeroDivisionError"
  using assms
  by (simp add: generate_labeled_unlabeled_split_def random_seed_def list_copy_def alloc_def
        random_shuffle_def deref_def floordiv_def Let_def nth_append split: if_splits)

lemma result_lists_char:
  assumes "deref w a = Inr xs"
  shows "result_lists (generate_labeled_unlabeled_split sd rb w a r nm) =
     (case shuffle rb (sd 42) xs of Inl e \<Rightarrow> Inl e
      | Inr (ys, g) \<Rightarrow> if r = 0 then Inl ZeroDivisionError
          else Inr (slice_to ys (int (length ys) div r), slice_from ys (int (length ys) div r)))"
proof (cases "shuffle rb (sd 42) xs")
  case (Inl e)
  with assms show ?thesis by (simp add: split_fail_shuffle result_lists_def)
next
  case (Inr p)
  obtain ys g where p: "p = (ys, g)" by (cases p)
  show ?thesis
  proof (cases "r = 0")
    case True
    with Inr p assms show ?thesis by (simp add: split_fail_zero result_lists_def)
  next
    case False
    with Inr p assms show ?thesis
      by (simp add: split_char[where sd=sd] result_lists_def deref_def nth_append)
  qed
qed

lemma slice_partition: "slice_to xs k @ slice_from xs k = xs"
  by (simp add: slice_to_def slice_from_def)


lemma lcg_randbelow_ok: "randbelow_ok lcg_randbelow"
  by (simp add: randbelow_ok_def lcg_randbelow_def Let_def)

lemma slice_to_div_length:
  assumes "0 < r"
  shows "int (length (slice_to ys (int (length ys) div r))) = int (length ys) div r"
proof -
  have nn: "0 \<le> int (length ys) div r" using assms by (simp add: pos_imp_zdiv_nonneg_iff)
  have le: "int (length ys) div r \<le> int (length ys)"
    using zdiv_mono2[of "int (length ys)" 1 r] assms by simp
  from nn le show ?thesis by (simp add: slice_to_def slice_index_def)
qed

lemma slice_lengths: "length (slice_to ys k) + length (slice_from ys k) = length ys"
  by (simp add: slice_to_def slice_from_def)

lemma shuffle_sample:
  "shuffle lcg_randbelow (lcg_seed 42) [''a.tif'', ''b.tif'', ''c.tif'', ''d.tif'']
     = Inr ([''a.tif'', ''d.tif'', ''c.tif'', ''b.tif''], 31)"
  by code_simp

lemma shuffle_dup:
  "shuffle lcg_randbelow (lcg_seed 42) [''a.tif'', ''a.tif''] = Inr ([''a.tif'', ''a.tif''], 21)"
  by code_simp

lemma deref_sample: "deref sample_world 0 = Inr [''a.tif'', ''b.tif'', ''c.tif'', ''d.tif'']"
  by (simp add: deref_def sample_world_def)

lemma deref_other: "deref other_world 1 = Inr [''a.tif'', ''b.tif'', ''c.tif'', ''d.tif'']"
  by (simp add: deref_def other_world_def)

lemma deref_dup: "deref dup_world 0 = Inr [''a.tif'', ''a.tif'']"
  by (simp add: deref_def dup_world_def)

lemma take_prefix_mono: "m \<le> n \<Longrightarrow> prefix (take m xs) (take n xs)"
  by (metis min.absorb1 take_is_prefix take_take)

lemma slice_to_zero: "slice_to ys 0 = []"
  by (simp add: slice_to_def slice_index_def)

lemma slice_from_zero: "slice_from ys 0 = ys"
  by (simp add: slice_from_def slice_index_def)

lemma disk_train:
  "dirs disk_world [''data/gf-7-building-4bands'', ''Train'', ''image'']
     = Some [''d.tif'', ''b.tif'', ''notes.txt'', ''a.tif'', ''c.tif'']"
  by (simp add: disk_world_def)

lemma disk_val: "dirs disk_world [''data/gf-7-building-4bands'', ''Val'', ''image''] = None"
  by (simp add: disk_world_def)

lemma train_sorted:
  "sort (filter (\<lambda>name. suffix ''.tif'' name) [''d.tif'', ''b.tif'', ''notes.txt'', ''a.tif'', ''c.tif''])
     = [''a.tif'', ''b.tif'', ''c.tif'', ''d.tif'']"
  by code_simp

lemma train_listing:
  "fst (get_image_files disk_world ''data/gf-7-building-4bands'' ''Train'')
     = [''a.tif'', ''b.tif'', ''c.tif'', ''d.tif'']"
proof -
  have "get_image_files disk_world ''data/gf-7-building-4bands'' ''Train''
      = (sort (filter (\<lambda>name. suffix ''.tif'' name) [''d.tif'', ''b.tif'', ''notes.txt'', ''a.tif'', ''c.tif'']),
         disk_world)"
    unfolding get_image_files_def Let_def disk_train by simp
  then show ?thesis by (simp only: train_sorted fst_conv)
qed

lemma deref_empty: "deref empty_world 0 = Inr []"
  by (simp add: deref_def empty_world_def)

section \<open>Facts on the driver\<close>

lemma deref_prefix:
  assumes "prefix (heap w) (heap w')" and "deref w a = Inr xs"
  shows "deref w' a = Inr xs"
proof -
  from assms(1) obtain zs where h: "heap w' = heap w @ zs" by (auto simp: prefix_def)
  from assms(2) have "a < length (heap w)" "heap w ! a = xs"
    by (auto simp: deref_def split: if_splits)
  with h show ?thesis by (simp add: deref_def nth_append)
qed

lemma get_image_files_cases:
  obtains names w' where "get_image_files w b s = (names, w')"
    and "rng w' = rng w" and "heap w' = heap w" and "dirs w' = dirs w" and "files w' = files w"
proof (cases "dirs w [b, s, ''image'']")
  case None
  then have "get_image_files w b s
      = ([], w\<lparr>stdout := stdout w @ [''Warning: '' @ path_str [b, s, ''image''] @ '' does not exist'']\<rparr>)"
    by (simp add: get_image_files_def Let_def)
  then show thesis by (rule that) simp_all
next
  case (Some es)
  then have "get_image_files w b s = (sort (filter (\<lambda>name. suffix ''.tif'' name) es), w)"
    by (simp add: get_image_files_def Let_def)
  then show thesis by (rule that) simp_all
qed

lemma get_image_files_dirs:
  "dirs w' = dirs w \<Longrightarrow> fst (get_image_files w' b s) = fst (get_image_files w b s)"
  by (simp add: get_image_files_def Let_def split: option.splits)

lemma write_ratio_split_effect:
  assumes "deref w a = Inr xs" and "shuffle rb (sd 42) xs = Inr (ys, g)" and "r \<noteq> 0"
  shows "\<exists>l u w'. write_ratio_split sd rb w a r dir = Inr ((l, u), w')
           \<and> deref w' l = Inr (slice_to ys (int (length ys) div r))
           \<and> deref w' u = Inr (slice_from ys (int (length ys) div r))
           \<and> prefix (heap w) (heap w')
           \<and> files w' = (files w)
                (dir @ [''labeled.txt''] \<mapsto>
                   split_file_text (slice_to ys (int (length ys) div r)) ''Train'',
                 dir @ [''unlabeled.txt''] \<mapsto>
                   split_file_text (slice_from ys (int (length ys) div r)) ''Train'')"
proof -
  let ?k = "int (length ys) div r"
  let ?w1 = "w\<lparr>rng := g, heap := heap w @ [ys, slice_to ys ?k, slice_from ys ?k]\<rparr>"
  have call: "generate_labeled_unlabeled_split sd rb w a r ''Train''
      = Inr ((length (heap w) + 1, length (heap w) + 2), ?w1)"
    using assms by (rule split_char)
  have dl: "deref ?w1 (length (heap w) + 1) = Inr (slice_to ys ?k)"
    by (simp add: deref_def nth_append)
  have du: "deref ?w1 (length (heap w) + 2) = Inr (slice_from ys ?k)"
    by (simp add: deref_def nth_append)
  let ?w3 = "write_split_file
      (write_split_file ?w1 (dir @ [''labeled.txt'']) (slice_to ys ?k) ''Train'')
      (dir @ [''unlabeled.txt'']) (slice_from ys ?k) ''Train''"
  have res: "write_ratio_split sd rb w a r dir
      = Inr ((length (heap w) + 1, length (heap w) + 2), ?w3)"
    unfolding write_ratio_split_def call by (simp add: deref_def nth_append Let_def)
  have h3: "heap ?w3 = heap w @ [ys, slice_to ys ?k, slice_from ys ?k]"
    by (simp add: write_split_file_def)
  have dl3: "deref ?w3 (length (heap w) + 1) = Inr (slice_to ys ?k)"
    by (simp add: deref_def h3 nth_append)
  have du3: "deref ?w3 (length (heap w) + 2) = Inr (slice_from ys ?k)"
    by (simp add: deref_def h3 nth_append)
  have pre: "prefix (heap w) (heap ?w3)" by (simp add: h3)
  have fl: "files ?w3 = (files w)
      (dir @ [''labeled.txt''] \<mapsto> split_file_text (slice_to ys ?k) ''Train'',
       dir @ [''unlabeled.txt''] \<mapsto> split_file_text (slice_from ys ?k) ''Train'')"
    by (simp add: write_split_file_def)
  show ?thesis
    by (intro exI conjI, rule res, rule dl3, rule du3, rule pre, rule fl)
qed

lemma write_ratio_split_fail:
  assumes "deref w a = Inr xs" and "shuffle rb (sd 42) xs = Inl e"
  shows "write_ratio_split sd rb w a r dir = Inl e"
  unfolding write_ratio_split_def
  using assms(1) assms(2) by (subst split_fail_shuffle) simp_all

lemma write_small_split_effect:
  assumes "deref w l = Inr ls" and "deref w u = Inr us"
  shows "\<exists>w'. write_small_split w l u dir = Inr w'
           \<and> prefix (heap w) (heap w')
           \<and> files w' = (files w)
                (dir @ [''labeled.txt''] \<mapsto> split_file_text (small_variant ls) ''Train'',
                 dir @ [''unlabeled.txt''] \<mapsto> split_file_text (small_variant us) ''Train'')"
  using assms by (simp add: write_small_split_def write_split_file_def Let_def)

lemma main_effect:
  assumes tr: "fst (get_image_files w ''data/gf-7-building-4bands'' ''Train'') = train"
    and va: "fst (get_image_files w ''data/gf-7-building-4bands'' ''Val'') = val"
    and te: "fst (get_image_files w ''data/gf-7-building-4bands'' ''Test'') = test"
    and sh: "shuffle rb (sd 42) train = Inr (ys, g)"
  shows "\<exists>w'. main sd rb w = Inr w' \<and> files w' = files_after_main (files w) train val test ys"
proof -
  let ?B = "''data/gf-7-building-4bands''"
  let ?out = "''UniMatch-V2/splits/gf7-building''"
  obtain n1 w1 where g1: "get_image_files w ?B ''Train'' = (n1, w1)"
    and w1: "heap w1 = heap w" "dirs w1 = dirs w" "files w1 = files w"
    by (rule get_image_files_cases[of w ?B "''Train''"]) 
  from g1 tr have n1: "n1 = train" by simp
  let ?a = "length (heap w1)"
  let ?w2 = "w1\<lparr>heap := heap w1 @ [train]\<rparr>"
  have a2: "alloc w1 train = (?a, ?w2)" by (simp add: alloc_def)
  obtain n3 w3 where g3: "get_image_files ?w2 ?B ''Val'' = (n3, w3)"
    and w3: "heap w3 = heap ?w2" "dirs w3 = dirs ?w2" "files w3 = files ?w2"
    by (rule get_image_files_cases[of ?w2 ?B "''Val''"])
  have "fst (get_image_files ?w2 ?B ''Val'') = fst (get_image_files w ?B ''Val'')"
    by (rule get_image_files_dirs) (simp add: w1)
  with g3 va have n3: "n3 = val" by simp
  obtain n4 w4 where g4: "get_image_files w3 ?B ''Test'' = (n4, w4)"
    and w4: "heap w4 = heap w3" "dirs w4 = dirs w3" "files w4 = files w3"
    by (rule get_image_files_cases[of w3 ?B "''Test''"])
  have "fst (get_image_files w3 ?B ''Test'') = fst (get_image_files w ?B ''Test'')"
    by (rule get_image_files_dirs) (simp add: w1 w3)
  with g4 te have n4: "n4 = test" by simp
  let ?w7 = "write_split_file
      (write_split_file (write_split_file w4 [?out, ''val.txt''] val ''Val'')
         [?out, ''test.txt''] test ''Test'')
      [?out, ''all'', ''labeled.txt''] train ''Train''"
  have h7: "heap ?w7 = heap w1 @ [train]" by (simp add: write_split_file_def w4 w3)
  have f7: "files ?w7 = (files w)
      ([?out, ''val.txt''] \<mapsto> split_file_text val ''Val'',
       [?out, ''test.txt''] \<mapsto> split_file_text test ''Test'',
       [?out, ''all'', ''labeled.txt''] \<mapsto> split_file_text train ''Train'')"
    by (simp add: write_split_file_def w4 w3 w1)
  have d7: "deref ?w7 ?a = Inr train" by (simp add: deref_def h7)
  have nz: "(32::int) \<noteq> 0" "(64::int) \<noteq> 0" "(16::int) \<noteq> 0" "(8::int) \<noteq> 0" "(4::int) \<noteq> 0"
    by simp_all
  from write_ratio_split_effect[where sd=sd and dir="[?out, ''1_32'']", OF d7 sh nz(1)]
  obtain l32 u32 w8 where r8: "write_ratio_split sd rb ?w7 ?a 32 [?out, ''1_32''] = Inr ((l32, u32), w8)"
    and dl32: "deref w8 l32 = Inr (slice_to ys (int (length ys) div 32))"
    and du32: "deref w8 u32 = Inr (slice_from ys (int (length ys) div 32))"
    and p8: "prefix (heap ?w7) (heap w8)"
    and f8: "files w8 = (files ?w7)
        ([?out, ''1_32''] @ [''labeled.txt''] \<mapsto>
           split_file_text (slice_to ys (int (length ys) div 32)) ''Train'',
         [?out, ''1_32''] @ [''unlabeled.txt''] \<mapsto>
           split_file_text (slice_from ys (int (length ys) div 32)) ''Train'')"
    by blast
  have d8: "deref w8 ?a = Inr train" by (rule deref_prefix[OF p8 d7])
  from write_ratio_split_effect[where sd=sd and dir="[?out, ''1_64'']", OF d8 sh nz(2)]
  obtain l64 u64 w9 where r9: "write_ratio_split sd rb w8 ?a 64 [?out, ''1_64''] = Inr ((l64, u64), w9)"
    and dl64: "deref w9 l64 = Inr (slice_to ys (int (length ys) div 64))"
    and du64: "deref w9 u64 = Inr (slice_from ys (int (length ys) div 64))"
    and p9: "prefix (heap w8) (heap w9)"
    and f9: "files w9 = (files w8)
        ([?out, ''1_64''] @ [''labeled.txt''] \<mapsto>
           split_file_text (slice_to ys (int (length ys) div 64)) ''Train'',
         [?out, ''1_64''] @ [''unlabeled.txt''] \<mapsto>
           split_file_text (slice_from ys (int (length ys) div 64)) ''Train'')"
    by blast
  have d9: "deref w9 ?a = Inr train" by (rule deref_prefix[OF p9 d8])
  from write_ratio_split_effect[where sd=sd and dir="[?out, ''1_16'']", OF d9 sh nz(3)]
  obtain l16 u16 w10 where r10: "write_ratio_split sd rb w9 ?a 16 [?out, ''1_16''] = Inr ((l16, u16), w10)"
    and p10: "prefix (heap w9) (heap w10)"
    and f10: "files w10 = (files w9)
        ([?out, ''1_16''] @ [''labeled.txt''] \<mapsto>
           split_file_text (slice_to ys (int (length ys) div 16)) ''Train'',
         [?out, ''1_16''] @ [''unlabeled.txt''] \<mapsto>
           split_file_text (slice_from ys (int (length ys) div 16)) ''Train'')"
    by blast
  have d10: "deref w10 ?a = Inr train" by (rule deref_prefix[OF p10 d9])
  from write_ratio_split_effect[where sd=sd and dir="[?out, ''1_8'']", OF d10 sh nz(4)]
  obtain l8 u8 w11 where r11: "write_ratio_split sd rb w10 ?a 8 [?out, ''1_8''] = Inr ((l8, u8), w11)"
    and p11: "prefix (heap w10) (heap w11)"
    and f11: "files w11 = (files w10)
        ([?out, ''1_8''] @ [''labeled.txt''] \<mapsto>
           split_file_text (slice_to ys (int (length ys) div 8)) ''Train'',
         [?out, ''1_8''] @ [''unlabeled.txt''] \<mapsto>
           split_file_text (slice_from ys (int (length ys) div 8)) ''Train'')"
    by blast
  have d11: "deref w11 ?a = Inr train" by (rule deref_prefix[OF p11 d10])
  from write_ratio_split_effect[where sd=sd and dir="[?out, ''1_4'']", OF d11 sh nz(5)]
  obtain l4 u4 w12 where r12: "write_ratio_split sd rb w11 ?a 4 [?out, ''1_4''] = Inr ((l4, u4), w12)"
    and p12: "prefix (heap w11) (heap w12)"
    and f12: "files w12 = (files w11)
        ([?out, ''1_4''] @ [''labeled.txt''] \<mapsto>
           split_file_text (slice_to ys (int (length ys) div 4)) ''Train'',
         [?out, ''1_4''] @ [''unlabeled.txt''] \<mapsto>
           split_file_text (slice_from ys (int (length ys) div 4)) ''Train'')"
    by blast
  have p8_12: "prefix (heap w8) (heap w12)"
    using p9 p10 p11 p12 by (meson prefix_order.order_trans)
  have p9_12: "prefix (heap w9) (heap w12)"
    using p10 p11 p12 by (meson prefix_order.order_trans)
  have dl32': "deref w12 l32 = Inr (slice_to ys (int (length ys) div 32))"
    by (rule deref_prefix[OF p8_12 dl32])
  have du32': "deref w12 u32 = Inr (slice_from ys (int (length ys) div 32))"
    by (rule deref_prefix[OF p8_12 du32])
  from write_small_split_effect[OF dl32' du32', of "[?out, ''small_1_32'']"]
  obtain w13 where r13: "write_small_split w12 l32 u32 [?out, ''small_1_32''] = Inr w13"
    and p13: "prefix (heap w12) (heap w13)"
    and f13: "files w13 = (files w12)
        ([?out, ''small_1_32''] @ [''labeled.txt''] \<mapsto>
           split_file_text (small_variant (slice_to ys (int (length ys) div 32))) ''Train'',
         [?out, ''small_1_32''] @ [''unlabeled.txt''] \<mapsto>
           split_file_text (small_variant (slice_from ys (int (length ys) div 32))) ''Train'')"
    by blast
  have p9_13: "prefix (heap w9) (heap w13)"
    using p9_12 p13 by (meson prefix_order.order_trans)
  have dl64': "deref w13 l64 = Inr (slice_to ys (int (length ys) div 64))"
    by (rule deref_prefix[OF p9_13 dl64])
  have du64': "deref w13 u64 = Inr (slice_from ys (int (length ys) div 64))"
    by (rule deref_prefix[OF p9_13 du64])
  from write_small_split_effect[OF dl64' du64', of "[?out, ''small_1_64'']"]
  obtain w14 where r14: "write_small_split w13 l64 u64 [?out, ''small_1_64''] = Inr w14"
    and f14: "files w14 = (files w13)
        ([?out, ''small_1_64''] @ [''labeled.txt''] \<mapsto>
           split_file_text (small_variant (slice_to ys (int (length ys) div 64))) ''Train'',
         [?out, ''small_1_64''] @ [''unlabeled.txt''] \<mapsto>
           split_file_text (small_variant (slice_from ys (int (length ys) div 64))) ''Train'')"
    by blast
  have run: "main sd rb w = Inr w14"
    unfolding main_def Let_def
    by (simp add: g1 n1 a2 g3 n3 g4 n4 r8 r9 r10 r11 r12 r13 r14)
  have fin: "files w14 = files_after_main (files w) train val test ys"
    unfolding files_after_main_def Let_def f14 f13 f12 f11 f10 f9 f8 f7 by simp
  from run fin show ?thesis by blast
qed

lemma split_fail_deref:
  assumes "deref w a = Inl e"
  shows "generate_labeled_unlabeled_split sd rb w a r nm = Inl e"
  using assms
  by (simp add: generate_labeled_unlabeled_split_def random_seed_def list_copy_def deref_def
        Let_def split: if_splits)

lemma split_returns_prefix:
  assumes "generate_labeled_unlabeled_split sd rb w a r nm = Inr (res, w')"
  shows "prefix (heap w) (heap w')"
proof (cases "deref w a")
  case (Inl e)
  with assms show ?thesis by (simp add: split_fail_deref)
next
  case (Inr xs)
  show ?thesis
  proof (cases "shuffle rb (sd 42) xs")
    case (Inl e)
    with Inr assms show ?thesis by (simp add: split_fail_shuffle)
  next
    case shf: (Inr p)
    obtain ys g where p: "p = (ys, g)" by (cases p)
    show ?thesis
    proof (cases "r = 0")
      case True
      with Inr shf p assms show ?thesis by (simp add: split_fail_zero)
    next
      case False
      from Inr shf p False assms show ?thesis
        by (subst (asm) split_char) auto
    qed
  qed
qed

lemma result_lists_InrD:
  assumes "deref w a = Inr xs"
    and "result_lists (generate_labeled_unlabeled_split sd rb w a r nm) = Inr (ls, us)"
  shows "\<exists>ys g. shuffle rb (sd 42) xs = Inr (ys, g) \<and> r \<noteq> 0
           \<and> ls = slice_to ys (int (length ys) div r)
           \<and> us = slice_from ys (int (length ys) div r)"
  using assms(2) unfolding result_lists_char[OF assms(1)]
  by (auto split: sum.splits if_splits prod.splits)

lemma main_fail:
  assumes tr: "fst (get_image_files w ''data/gf-7-building-4bands'' ''Train'') = train"
    and sh: "shuffle rb (sd 42) train = Inl e"
  shows "main sd rb w = Inl e"
proof -
  let ?B = "''data/gf-7-building-4bands''"
  let ?out = "''UniMatch-V2/splits/gf7-building''"
  obtain n1 w1 where g1: "get_image_files w ?B ''Train'' = (n1, w1)"
    by (rule get_image_files_cases[of w ?B "''Train''"])
  from g1 tr have n1: "n1 = train" by simp
  let ?a = "length (heap w1)"
  let ?w2 = "w1\<lparr>heap := heap w1 @ [train]\<rparr>"
  have a2: "alloc w1 train = (?a, ?w2)" by (simp add: alloc_def)
  obtain n3 w3 where g3: "get_image_files ?w2 ?B ''Val'' = (n3, w3)"
    and w3: "heap w3 = heap ?w2"
    by (rule get_image_files_cases[of ?w2 ?B "''Val''"])
  obtain n4 w4 where g4: "get_image_files w3 ?B ''Test'' = (n4, w4)"
    and w4: "heap w4 = heap w3"
    by (rule get_image_files_cases[of w3 ?B "''Test''"])
  let ?w7 = "write_split_file
      (write_split_file (write_split_file w4 [?out, ''val.txt''] n3 ''Val'')
         [?out, ''test.txt''] n4 ''Test'')
      [?out, ''all'', ''labeled.txt''] train ''Train''"
  have h7: "heap ?w7 = heap w1 @ [train]" by (simp add: write_split_file_def w4 w3)
  have d7: "deref ?w7 ?a = Inr train" by (simp add: deref_def h7)
  have r8: "write_ratio_split sd rb ?w7 ?a 32 [?out, ''1_32''] = Inl e"
    using d7 sh by (rule write_ratio_split_fail)
  show ?thesis
    unfolding main_def Let_def by (simp add: g1 n1 a2 g3 g4 r8)
qed

lemma main_files_char:
  "map_sum id files (main sd rb w) =
     (case shuffle rb (sd 42) (fst (get_image_files w ''data/gf-7-building-4bands'' ''Train'')) of
        Inl e \<Rightarrow> Inl e
      | Inr (ys, g) \<Rightarrow>
          Inr (files_after_main (files w)
                 (fst (get_image_files w ''data/gf-7-building-4bands'' ''Train''))
                 (fst (get_image_files w ''data/gf-7-building-4bands'' ''Val''))
                 (fst (get_image_files w ''data/gf-7-building-4bands'' ''Test'')) ys))"
proof (cases "shuffle rb (sd 42) (fst (get_image_files w ''data/gf-7-building-4bands'' ''Train''))")
  case (Inl e)
  from main_fail[where sd=sd and w=w, OF refl Inl] Inl show ?thesis by simp
next
  case (Inr p)
  obtain ys g where p: "p = (ys, g)" by (cases p)
  from main_effect[where sd=sd and w=w, OF refl refl refl Inr[unfolded p]] Inr p show ?thesis by auto
qed

lemma small_bound: "nat (max 1 (int n div 100)) = max 1 (n div 100)"
proof -
  have "int n div 100 = int (n div 100)" by (simp add: zdiv_int)
  then show ?thesis by (simp add: max_def)
qed

lemma small_variant_take: "small_variant xs = take (max 1 (length xs div 100)) xs"
proof -
  have nn: "\<not> max 1 (int (length xs) div 100) < 0" by simp
  have "slice_index (length xs) (max 1 (int (length xs) div 100))
      = min (length xs) (max 1 (length xs div 100))"
    unfolding slice_index_def using nn by (simp only: if_False small_bound)
  then show ?thesis by (simp add: small_variant_def slice_to_def min_def)
qed

lemma small_variant_prefix: "prefix (small_variant xs) xs"
  by (simp add: small_variant_take take_is_prefix)

lemma small_variant_length:
  assumes "xs \<noteq> []"
  shows "length (small_variant xs) = max 1 (length xs div 100)"
proof -
  from assms have "1 \<le> length xs" by (cases xs) simp_all
  moreover have "length xs div 100 \<le> length xs" by simp
  ultimately show ?thesis by (simp add: small_variant_take)
qed

lemma small_variant_Nil: "small_variant [] = []"
  by (simp add: small_variant_take)

lemma files_after_main_small:
  "files_after_main fs train val test ys [''UniMatch-V2/splits/gf7-building'', ''small_1_32'', ''labeled.txt'']
     = Some (split_file_text (small_variant (slice_to ys (int (length ys) div 32))) ''Train'')"
  "files_after_main fs train val test ys [''UniMatch-V2/splits/gf7-building'', ''small_1_32'', ''unlabeled.txt'']
     = Some (split_file_text (small_variant (slice_from ys (int (length ys) div 32))) ''Train'')"
  "files_after_main fs train val test ys [''UniMatch-V2/splits/gf7-building'', ''small_1_64'', ''labeled.txt'']
     = Some (split_file_text (small_variant (slice_to ys (int (length ys) div 64))) ''Train'')"
  "files_after_main fs train val test ys [''UniMatch-V2/splits/gf7-building'', ''small_1_64'', ''unlabeled.txt'']
     = Some (split_file_text (small_variant (slice_from ys (int (length ys) div 64))) ''Train'')"
  by (simp_all add: files_after_main_def Let_def)

lemma files_after_main_parent:
  "files_after_main fs train val test ys [''UniMatch-V2/splits/gf7-building'', ''1_32'', ''labeled.txt'']
     = Some (split_file_text (slice_to ys (int (length ys) div 32)) ''Train'')"
  "files_after_main fs train val test ys [''UniMatch-V2/splits/gf7-building'', ''1_32'', ''unlabeled.txt'']
     = Some (split_file_text (slice_from ys (int (length ys) div 32)) ''Train'')"
  "files_after_main fs train val test ys [''UniMatch-V2/splits/gf7-building'', ''1_64'', ''labeled.txt'']
     = Some (split_file_text (slice_to ys (int (length ys) div 64)) ''Train'')"
  "files_after_main fs train val test ys [''UniMatch-V2/splits/gf7-building'', ''1_64'', ''unlabeled.txt'']
     = Some (split_file_text (slice_from ys (int (length ys) div 64)) ''Train'')"
  by (simp_all add: files_after_main_def Let_def)

lemma files_after_main_other_small:
  assumes "prefix ''small_'' d" and "d \<noteq> ''small_1_32''" and "d \<noteq> ''small_1_64''"
  shows "files_after_main fs train val test ys [''UniMatch-V2/splits/gf7-building'', d, f]
     = fs [''UniMatch-V2/splits/gf7-building'', d, f]"
proof -
  from assms(1) have "d \<noteq> ''all''" "d \<noteq> ''1_32''" "d \<noteq> ''1_64''" "d \<noteq> ''1_16''"
    "d \<noteq> ''1_8''" "d \<noteq> ''1_4''"
    by (auto simp: prefix_def)
  with assms(2,3) show ?thesis by (simp add: files_after_main_def Let_def)
qed

lemma result_lists_sample_32:
  "result_lists (generate_labeled_unlabeled_split lcg_seed lcg_randbelow sample_world 0 32 ''Train'')
     = Inr ([], [''a.tif'', ''d.tif'', ''c.tif'', ''b.tif''])"
  by (simp add: result_lists_char[OF deref_sample] shuffle_sample slice_to_def slice_from_def
        slice_index_def)

lemma result_lists_sample_64:
  "result_lists (generate_labeled_unlabeled_split lcg_seed lcg_randbelow sample_world 0 64 ''Train'')
     = Inr ([], [''a.tif'', ''d.tif'', ''c.tif'', ''b.tif''])"
  by (simp add: result_lists_char[OF deref_sample] shuffle_sample slice_to_def slice_from_def
        slice_index_def)

lemma deref_sample_train:
  "deref sample_world 0 = Inr (fst (get_image_files disk_world ''data/gf-7-building-4bands'' ''Train''))"
  by (simp only: train_listing deref_sample)

lemma split_file_text_Nil: "split_file_text [] split = []"
  by (simp add: split_file_text_def)

lemma split_sample_32:
  "generate_labeled_unlabeled_split lcg_seed lcg_randbelow sample_world 0 32 ''Train''
     = Inr ((length (heap sample_world) + 1, length (heap sample_world) + 2),
            sample_world\<lparr>rng := 31, heap := heap sample_world @
              [[''a.tif'', ''d.tif'', ''c.tif'', ''b.tif''],
               slice_to [''a.tif'', ''d.tif'', ''c.tif'', ''b.tif'']
                 (int (length [''a.tif'', ''d.tif'', ''c.tif'', ''b.tif'']) div 32),
               slice_from [''a.tif'', ''d.tif'', ''c.tif'', ''b.tif'']
                 (int (length [''a.tif'', ''d.tif'', ''c.tif'', ''b.tif'']) div 32)]\<rparr>)"
proof -
  have nz: "(32::int) \<noteq> 0" by simp
  from deref_sample shuffle_sample nz show ?thesis by (rule split_char)
qed

section \<open>The sizes of the two halves\<close>

text \<open>
  C1. For every list of identifiers of size \<open>N\<close> and every positive ratio \<open>r\<close>, with a
  generator that keeps its contract, \<^verbatim>\<open>generate_labeled_unlabeled_split\<close> returns two lists
  \<open>labeled\<close> and \<open>unlabeled\<close> with \<open>|labeled| = floor(N / r)\<close> and
  \<open>|unlabeled| = N - floor(N / r)\<close>.
\<close>

theorem split_sizes:
  assumes "randbelow_ok rb" and "deref w all_images = Inr xs" and "0 < ratio"
  shows "\<exists>labeled unlabeled w' ls us.
           generate_labeled_unlabeled_split sd rb w all_images ratio split_name
             = Inr ((labeled, unlabeled), w')
           \<and> deref w' labeled = Inr ls \<and> deref w' unlabeled = Inr us
           \<and> int (length ls) = int (length xs) div ratio
           \<and> int (length us) = int (length xs) - int (length xs) div ratio"
proof -
  from shuffle_ok[OF assms(1)] obtain ys g where
    sh: "shuffle rb (sd 42) xs = Inr (ys, g)" by blast
  have len: "length ys = length xs" by (rule shuffle_length[OF sh])
  let ?k = "int (length ys) div ratio"
  let ?w' = "w\<lparr>rng := g, heap := heap w @ [ys, slice_to ys ?k, slice_from ys ?k]\<rparr>"
  from assms(3) have nz: "ratio \<noteq> 0" by simp
  have call: "generate_labeled_unlabeled_split sd rb w all_images ratio split_name
      = Inr ((length (heap w) + 1, length (heap w) + 2), ?w')"
    using assms(2) sh nz by (rule split_char)
  have dl: "deref ?w' (length (heap w) + 1) = Inr (slice_to ys ?k)"
    by (simp add: deref_def nth_append)
  have du: "deref ?w' (length (heap w) + 2) = Inr (slice_from ys ?k)"
    by (simp add: deref_def nth_append)
  have l1: "int (length (slice_to ys ?k)) = int (length xs) div ratio"
    using slice_to_div_length[OF assms(3), of ys] len by simp
  have l2: "int (length (slice_from ys ?k)) = int (length xs) - int (length xs) div ratio"
    using slice_lengths[of ys ?k] l1 len by linarith
  from call dl du l1 l2 show ?thesis by blast
qed

theorem split_sizes_witness:
  "randbelow_ok lcg_randbelow
   \<and> deref sample_world 0 = Inr [''a.tif'', ''b.tif'', ''c.tif'', ''d.tif'']
   \<and> (0::int) < 4
   \<and> (\<exists>labeled unlabeled w' ls us.
           generate_labeled_unlabeled_split lcg_seed lcg_randbelow sample_world 0 4 ''Train''
             = Inr ((labeled, unlabeled), w')
           \<and> deref w' labeled = Inr ls \<and> deref w' unlabeled = Inr us
           \<and> int (length ls) = 1 \<and> int (length us) = 3)"
proof -
  have h2: "deref sample_world 0 = Inr [''a.tif'', ''b.tif'', ''c.tif'', ''d.tif'']"
    by (simp add: deref_def sample_world_def)
  have h3: "(0::int) < 4" by simp
  from split_sizes[OF lcg_randbelow_ok h2 h3, of lcg_seed "''Train''"] lcg_randbelow_ok h2
  show ?thesis by simp
qed

section \<open>The two halves partition the input\<close>

text \<open>
  C2, as the claim states it, fails on a list that repeats an identifier: the two halves
  of \<^verbatim>\<open>["a.tif", "a.tif"]\<close> at ratio 2 are \<^verbatim>\<open>["a.tif"]\<close> and \<^verbatim>\<open>["a.tif"]\<close>, which are
  not disjoint.
\<close>

theorem split_disjoint_counterexample:
  "result_lists (generate_labeled_unlabeled_split lcg_seed lcg_randbelow dup_world 0 2 ''Train'')
     = Inr ([''a.tif''], [''a.tif''])
   \<and> set [''a.tif''] \<inter> set [''a.tif''] \<noteq> ({} :: string set)"
  by (simp add: result_lists_char[OF deref_dup] shuffle_dup slice_to_def slice_from_def slice_index_def)

text \<open>
  C2, amended. For every list of identifiers and every ratio other than zero, with a
  generator that keeps its contract, the call returns two lists whose concatenation
  \<open>labeled @ unlabeled\<close> is a permutation of the input (no identifier is lost, added or
  multiplied); when the input repeats no identifier, the two lists are disjoint.
\<close>

theorem split_partitions:
  assumes "randbelow_ok rb" and "deref w all_images = Inr xs" and "ratio \<noteq> 0"
  shows "\<exists>labeled unlabeled w' ls us.
           generate_labeled_unlabeled_split sd rb w all_images ratio split_name
             = Inr ((labeled, unlabeled), w')
           \<and> deref w' labeled = Inr ls \<and> deref w' unlabeled = Inr us
           \<and> mset (ls @ us) = mset xs
           \<and> (distinct xs \<longrightarrow> set ls \<inter> set us = {})"
proof -
  from shuffle_ok[OF assms(1)] obtain ys g where
    sh: "shuffle rb (sd 42) xs = Inr (ys, g)" and ms: "mset ys = mset xs" by blast
  let ?k = "int (length ys) div ratio"
  let ?w' = "w\<lparr>rng := g, heap := heap w @ [ys, slice_to ys ?k, slice_from ys ?k]\<rparr>"
  have call: "generate_labeled_unlabeled_split sd rb w all_images ratio split_name
      = Inr ((length (heap w) + 1, length (heap w) + 2), ?w')"
    using assms(2) sh assms(3) by (rule split_char)
  have dl: "deref ?w' (length (heap w) + 1) = Inr (slice_to ys ?k)"
    by (simp add: deref_def nth_append)
  have du: "deref ?w' (length (heap w) + 2) = Inr (slice_from ys ?k)"
    by (simp add: deref_def nth_append)
  have cat: "slice_to ys ?k @ slice_from ys ?k = ys" by (rule slice_partition)
  have perm: "mset (slice_to ys ?k @ slice_from ys ?k) = mset xs"
    using cat ms by simp
  have disj: "distinct xs \<longrightarrow> set (slice_to ys ?k) \<inter> set (slice_from ys ?k) = {}"
  proof
    assume "distinct xs"
    with mset_eq_imp_distinct_iff[OF ms] have "distinct ys" by blast
    with cat have "distinct (slice_to ys ?k @ slice_from ys ?k)" by simp
    then show "set (slice_to ys ?k) \<inter> set (slice_from ys ?k) = {}" by simp
  qed
  show ?thesis
    by (intro exI conjI, rule call, rule dl, rule du, rule perm, rule disj)
qed

theorem split_partitions_witness:
  "randbelow_ok lcg_randbelow
   \<and> deref sample_world 0 = Inr [''a.tif'', ''b.tif'', ''c.tif'', ''d.tif'']
   \<and> (4::int) \<noteq> 0
   \<and> distinct [''a.tif'', ''b.tif'', ''c.tif'', ''d.tif'']
   \<and> (\<exists>labeled unlabeled w' ls us.
           generate_labeled_unlabeled_split lcg_seed lcg_randbelow sample_world 0 4 ''Train''
             = Inr ((labeled, unlabeled), w')
           \<and> deref w' labeled = Inr ls \<and> deref w' unlabeled = Inr us
           \<and> mset (ls @ us) = mset [''a.tif'', ''b.tif'', ''c.tif'', ''d.tif'']
           \<and> set ls \<inter> set us = {})"
proof -
  have h3: "(4::int) \<noteq> 0" by simp
  have d: "distinct [''a.tif'', ''b.tif'', ''c.tif'', ''d.tif'']" by simp
  from split_partitions[OF lcg_randbelow_ok deref_sample h3, of lcg_seed "''Train''"] d
    lcg_randbelow_ok deref_sample
  show ?thesis by simp
qed

section \<open>Determinism and independence of the call order\<close>

text \<open>
  C3. The lists \<^verbatim>\<open>generate_labeled_unlabeled_split\<close> returns are a function of the contents of
  the input list and of the ratio alone, because each call seeds the generator with 42
  first: two calls on equal contents and ratio return equal lists (or raise the same
  exception) in any two states, whatever the generator state, the heap and the addresses;
  a call made after any other call of the partitioner returns what it would have returned
  without it; and two runs of \<^verbatim>\<open>main\<close> from states with the same directories and files leave
  the same files, byte for byte, whatever else differs in the two states.
\<close>

theorem split_deterministic:
  "(deref w1 a1 = Inr xs \<and> deref w2 a2 = Inr xs \<longrightarrow>
      result_lists (generate_labeled_unlabeled_split sd rb w1 a1 r n1)
        = result_lists (generate_labeled_unlabeled_split sd rb w2 a2 r n2))
   \<and> (\<forall>res w1'. deref w1 a1 = Inr xs
         \<and> generate_labeled_unlabeled_split sd rb w1 a0 r0 n0 = Inr (res, w1') \<longrightarrow>
      result_lists (generate_labeled_unlabeled_split sd rb w1' a1 r n1)
        = result_lists (generate_labeled_unlabeled_split sd rb w1 a1 r n1))
   \<and> (dirs w1 = dirs w2 \<and> files w1 = files w2 \<longrightarrow>
      map_sum id files (main sd rb w1) = map_sum id files (main sd rb w2))"
proof (intro conjI impI allI)
  assume "deref w1 a1 = Inr xs \<and> deref w2 a2 = Inr xs"
  then show "result_lists (generate_labeled_unlabeled_split sd rb w1 a1 r n1)
      = result_lists (generate_labeled_unlabeled_split sd rb w2 a2 r n2)"
    by (simp add: result_lists_char[where xs=xs])
next
  fix res w1'
  assume h: "deref w1 a1 = Inr xs
      \<and> generate_labeled_unlabeled_split sd rb w1 a0 r0 n0 = Inr (res, w1')"
  then have "prefix (heap w1) (heap w1')" by (blast intro: split_returns_prefix)
  with h have "deref w1' a1 = Inr xs" by (blast intro: deref_prefix)
  with h show "result_lists (generate_labeled_unlabeled_split sd rb w1' a1 r n1)
      = result_lists (generate_labeled_unlabeled_split sd rb w1 a1 r n1)"
    by (simp add: result_lists_char[where xs=xs])
next
  assume h: "dirs w1 = dirs w2 \<and> files w1 = files w2"
  then have "fst (get_image_files w1 ''data/gf-7-building-4bands'' ''Train'')
        = fst (get_image_files w2 ''data/gf-7-building-4bands'' ''Train'')"
      "fst (get_image_files w1 ''data/gf-7-building-4bands'' ''Val'')
        = fst (get_image_files w2 ''data/gf-7-building-4bands'' ''Val'')"
      "fst (get_image_files w1 ''data/gf-7-building-4bands'' ''Test'')
        = fst (get_image_files w2 ''data/gf-7-building-4bands'' ''Test'')"
    by (simp_all add: get_image_files_dirs[of w1 w2])
  with h show "map_sum id files (main sd rb w1) = map_sum id files (main sd rb w2)"
    by (simp only: main_files_char)
qed

theorem split_deterministic_witness:
  "deref sample_world 0 = Inr [''a.tif'', ''b.tif'', ''c.tif'', ''d.tif'']
   \<and> deref other_world 1 = Inr [''a.tif'', ''b.tif'', ''c.tif'', ''d.tif'']
   \<and> result_lists (generate_labeled_unlabeled_split lcg_seed lcg_randbelow sample_world 0 4 ''Train'')
       = result_lists (generate_labeled_unlabeled_split lcg_seed lcg_randbelow other_world 1 4 ''Train'')
   \<and> (\<exists>res w'. generate_labeled_unlabeled_split lcg_seed lcg_randbelow sample_world 0 32 ''Train''
           = Inr (res, w')
         \<and> result_lists (generate_labeled_unlabeled_split lcg_seed lcg_randbelow w' 0 4 ''Train'')
             = result_lists (generate_labeled_unlabeled_split lcg_seed lcg_randbelow sample_world 0 4 ''Train''))
   \<and> dirs disk_world = dirs disk_world_later \<and> files disk_world = files disk_world_later
   \<and> rng disk_world \<noteq> rng disk_world_later
   \<and> map_sum id files (main lcg_seed lcg_randbelow disk_world)
       = map_sum id files (main lcg_seed lcg_randbelow disk_world_later)"
proof -
  note t1 = split_deterministic[of sample_world 0 "[''a.tif'', ''b.tif'', ''c.tif'', ''d.tif'']"
      other_world 1 lcg_seed lcg_randbelow 4 "''Train''" "''Train''" 0 32 "''Train''"]
  note t2 = split_deterministic[of disk_world 0 "[]" disk_world_later 0 lcg_seed lcg_randbelow
      4 "''Train''" "''Train''" 0 32 "''Train''"]
  from t1 deref_sample deref_other have a:
    "result_lists (generate_labeled_unlabeled_split lcg_seed lcg_randbelow sample_world 0 4 ''Train'')
       = result_lists (generate_labeled_unlabeled_split lcg_seed lcg_randbelow other_world 1 4 ''Train'')"
    by blast
  from t1 deref_sample split_sample_32 have b:
    "\<exists>res w'. generate_labeled_unlabeled_split lcg_seed lcg_randbelow sample_world 0 32 ''Train''
           = Inr (res, w')
         \<and> result_lists (generate_labeled_unlabeled_split lcg_seed lcg_randbelow w' 0 4 ''Train'')
             = result_lists (generate_labeled_unlabeled_split lcg_seed lcg_randbelow sample_world 0 4 ''Train'')"
    by blast
  have d: "dirs disk_world = dirs disk_world_later" "files disk_world = files disk_world_later"
    by (simp_all add: disk_world_later_def)
  have g: "rng disk_world \<noteq> rng disk_world_later"
    by (simp add: disk_world_later_def disk_world_def)
  from t2 d have c: "map_sum id files (main lcg_seed lcg_randbelow disk_world)
       = map_sum id files (main lcg_seed lcg_randbelow disk_world_later)"
    by blast
  from deref_sample deref_other a b d g c show ?thesis by (intro conjI)
qed

section \<open>The small variants\<close>

text \<open>
  C4. Let \<open>(l32, u32)\<close> and \<open>(l64, u64)\<close> be what the partitioner returns for the training
  list at the ratios 32 and 64, in any state. Then \<^verbatim>\<open>main\<close> returns, the files of \<^verbatim>\<open>1_32\<close> and
  \<^verbatim>\<open>1_64\<close> hold these lists, and the files of \<^verbatim>\<open>small_1_32\<close> and \<^verbatim>\<open>small_1_64\<close> hold their
  small variants: the same lists (no new partition) cut to their first
  \<open>max(1, floor(count/100))\<close> elements, in the same order. No other directory whose name starts
  with \<^verbatim>\<open>small_\<close> is written, so the other ratios have no small variant. A small variant is a
  prefix of its parent, and for a non-empty parent its length is \<open>max(1, floor(count/100))\<close>.
\<close>

theorem small_variants:
  assumes "deref v a = Inr (fst (get_image_files w ''data/gf-7-building-4bands'' ''Train''))"
    and "result_lists (generate_labeled_unlabeled_split sd rb v a 32 nm) = Inr (l32, u32)"
    and "result_lists (generate_labeled_unlabeled_split sd rb v a 64 nm) = Inr (l64, u64)"
  shows "\<exists>w'. main sd rb w = Inr w'
     \<and> files w' [''UniMatch-V2/splits/gf7-building'', ''1_32'', ''labeled.txt'']
         = Some (split_file_text l32 ''Train'')
     \<and> files w' [''UniMatch-V2/splits/gf7-building'', ''1_32'', ''unlabeled.txt'']
         = Some (split_file_text u32 ''Train'')
     \<and> files w' [''UniMatch-V2/splits/gf7-building'', ''small_1_32'', ''labeled.txt'']
         = Some (split_file_text (small_variant l32) ''Train'')
     \<and> files w' [''UniMatch-V2/splits/gf7-building'', ''small_1_32'', ''unlabeled.txt'']
         = Some (split_file_text (small_variant u32) ''Train'')
     \<and> files w' [''UniMatch-V2/splits/gf7-building'', ''1_64'', ''labeled.txt'']
         = Some (split_file_text l64 ''Train'')
     \<and> files w' [''UniMatch-V2/splits/gf7-building'', ''1_64'', ''unlabeled.txt'']
         = Some (split_file_text u64 ''Train'')
     \<and> files w' [''UniMatch-V2/splits/gf7-building'', ''small_1_64'', ''labeled.txt'']
         = Some (split_file_text (small_variant l64) ''Train'')
     \<and> files w' [''UniMatch-V2/splits/gf7-building'', ''small_1_64'', ''unlabeled.txt'']
         = Some (split_file_text (small_variant u64) ''Train'')
     \<and> (\<forall>d f. prefix ''small_'' d \<and> d \<noteq> ''small_1_32'' \<and> d \<noteq> ''small_1_64'' \<longrightarrow>
           files w' [''UniMatch-V2/splits/gf7-building'', d, f]
             = files w [''UniMatch-V2/splits/gf7-building'', d, f])
     \<and> (\<forall>xs \<in> {l32, u32, l64, u64}.
           small_variant xs = take (max 1 (length xs div 100)) xs
           \<and> prefix (small_variant xs) xs
           \<and> (xs \<noteq> [] \<longrightarrow> length (small_variant xs) = max 1 (length xs div 100)))"
proof -
  let ?train = "fst (get_image_files w ''data/gf-7-building-4bands'' ''Train'')"
  from result_lists_InrD[OF assms(1) assms(2)] obtain ys g where
    sh: "shuffle rb (sd 42) ?train = Inr (ys, g)"
    and l32: "l32 = slice_to ys (int (length ys) div 32)"
    and u32: "u32 = slice_from ys (int (length ys) div 32)"
    by blast
  from result_lists_InrD[OF assms(1) assms(3)] sh have
    l64: "l64 = slice_to ys (int (length ys) div 64)"
    and u64: "u64 = slice_from ys (int (length ys) div 64)"
    by auto
  from main_effect[where sd=sd and w=w, OF refl refl refl sh] obtain w' where
    run: "main sd rb w = Inr w'"
    and fl: "files w' = files_after_main (files w) ?train
        (fst (get_image_files w ''data/gf-7-building-4bands'' ''Val''))
        (fst (get_image_files w ''data/gf-7-building-4bands'' ''Test'')) ys"
    by blast
  have others: "\<forall>d f. prefix ''small_'' d \<and> d \<noteq> ''small_1_32'' \<and> d \<noteq> ''small_1_64'' \<longrightarrow>
      files w' [''UniMatch-V2/splits/gf7-building'', d, f]
        = files w [''UniMatch-V2/splits/gf7-building'', d, f]"
    unfolding fl by (simp add: files_after_main_other_small)
  have cut: "\<forall>xs \<in> {l32, u32, l64, u64}.
      small_variant xs = take (max 1 (length xs div 100)) xs
      \<and> prefix (small_variant xs) xs
      \<and> (xs \<noteq> [] \<longrightarrow> length (small_variant xs) = max 1 (length xs div 100))"
    using small_variant_take small_variant_prefix small_variant_length by blast
  show ?thesis
    apply (rule exI[of _ w'])
    apply (intro conjI)
             apply (rule run)
            apply (simp only: fl l32 files_after_main_parent)
           apply (simp only: fl u32 files_after_main_parent)
          apply (simp only: fl l32 files_after_main_small)
         apply (simp only: fl u32 files_after_main_small)
        apply (simp only: fl l64 files_after_main_parent)
       apply (simp only: fl u64 files_after_main_parent)
      apply (simp only: fl l64 files_after_main_small)
     apply (simp only: fl u64 files_after_main_small)
    apply (rule others)
    apply (rule cut)
    done
qed

theorem small_variants_witness:
  "deref sample_world 0
     = Inr (fst (get_image_files disk_world ''data/gf-7-building-4bands'' ''Train''))
   \<and> result_lists (generate_labeled_unlabeled_split lcg_seed lcg_randbelow sample_world 0 32 ''Train'')
       = Inr ([], [''a.tif'', ''d.tif'', ''c.tif'', ''b.tif''])
   \<and> result_lists (generate_labeled_unlabeled_split lcg_seed lcg_randbelow sample_world 0 64 ''Train'')
       = Inr ([], [''a.tif'', ''d.tif'', ''c.tif'', ''b.tif''])
   \<and> (\<exists>w'. main lcg_seed lcg_randbelow disk_world = Inr w'
         \<and> files w' [''UniMatch-V2/splits/gf7-building'', ''1_32'', ''unlabeled.txt'']
             = Some (split_file_text [''a.tif'', ''d.tif'', ''c.tif'', ''b.tif''] ''Train'')
         \<and> files w' [''UniMatch-V2/splits/gf7-building'', ''small_1_32'', ''unlabeled.txt'']
             = Some (split_file_text (small_variant [''a.tif'', ''d.tif'', ''c.tif'', ''b.tif'']) ''Train'')
         \<and> files w' [''UniMatch-V2/splits/gf7-building'', ''small_1_64'', ''unlabeled.txt'']
             = Some (split_file_text (small_variant [''a.tif'', ''d.tif'', ''c.tif'', ''b.tif'']) ''Train'')
         \<and> files w' [''UniMatch-V2/splits/gf7-building'', ''small_1_16'', ''labeled.txt'']
             = files disk_world [''UniMatch-V2/splits/gf7-building'', ''small_1_16'', ''labeled.txt'']
         \<and> prefix (small_variant [''a.tif'', ''d.tif'', ''c.tif'', ''b.tif''])
               [''a.tif'', ''d.tif'', ''c.tif'', ''b.tif'']
         \<and> length (small_variant [''a.tif'', ''d.tif'', ''c.tif'', ''b.tif'']) = 1)"
proof -
  let ?u = "[''a.tif'', ''d.tif'', ''c.tif'', ''b.tif'']"
  from small_variants[OF deref_sample_train result_lists_sample_32 result_lists_sample_64]
  obtain w' where run: "main lcg_seed lcg_randbelow disk_world = Inr w'"
    and f1: "files w' [''UniMatch-V2/splits/gf7-building'', ''1_32'', ''unlabeled.txt'']
         = Some (split_file_text ?u ''Train'')"
    and f2: "files w' [''UniMatch-V2/splits/gf7-building'', ''small_1_32'', ''unlabeled.txt'']
         = Some (split_file_text (small_variant ?u) ''Train'')"
    and f3: "files w' [''UniMatch-V2/splits/gf7-building'', ''small_1_64'', ''unlabeled.txt'']
         = Some (split_file_text (small_variant ?u) ''Train'')"
    and oth: "\<forall>d f. prefix ''small_'' d \<and> d \<noteq> ''small_1_32'' \<and> d \<noteq> ''small_1_64'' \<longrightarrow>
           files w' [''UniMatch-V2/splits/gf7-building'', d, f]
             = files disk_world [''UniMatch-V2/splits/gf7-building'', d, f]"
    and cut: "\<forall>xs \<in> {[], ?u, [], ?u}.
           small_variant xs = take (max 1 (length xs div 100)) xs
           \<and> prefix (small_variant xs) xs
           \<and> (xs \<noteq> [] \<longrightarrow> length (small_variant xs) = max 1 (length xs div 100))"
    by blast
  have p: "prefix ''small_'' ''small_1_16''" by (simp add: prefix_def)
  from oth p have f4: "files w' [''UniMatch-V2/splits/gf7-building'', ''small_1_16'', ''labeled.txt'']
      = files disk_world [''UniMatch-V2/splits/gf7-building'', ''small_1_16'', ''labeled.txt'']"
    by simp
  from cut have c1: "prefix (small_variant ?u) ?u" by simp
  from cut have c2: "length (small_variant ?u) = 1" by simp
  from deref_sample_train result_lists_sample_32 result_lists_sample_64 run f1 f2 f3 f4 c1 c2
  show ?thesis by blast
qed

section \<open>Edge cases of the partitioner\<close>

text \<open>
  C5, as the claim states it, fails at \<open>r = N\<close>: four identifiers at ratio 4 give one
  labeled identifier, and the unlabeled list holds the three others, not the full input.
\<close>

theorem edge_cases_counterexample:
  "result_lists (generate_labeled_unlabeled_split lcg_seed lcg_randbelow sample_world 0 4 ''Train'')
     = Inr ([''a.tif''], [''d.tif'', ''c.tif'', ''b.tif''])
   \<and> int (length [''a.tif'', ''b.tif'', ''c.tif'', ''d.tif'']) \<le> 4
   \<and> set [''d.tif'', ''c.tif'', ''b.tif''] \<noteq> set [''a.tif'', ''b.tif'', ''c.tif'', ''d.tif'']"
proof -
  have r: "result_lists
      (generate_labeled_unlabeled_split lcg_seed lcg_randbelow sample_world 0 4 ''Train'')
      = Inr ([''a.tif''], [''d.tif'', ''c.tif'', ''b.tif''])"
    by (simp add: result_lists_char[OF deref_sample] shuffle_sample slice_to_def slice_from_def
          slice_index_def)
  have "''a.tif'' \<notin> set [''d.tif'', ''c.tif'', ''b.tif'']" by simp
  moreover have "''a.tif'' \<in> set [''a.tif'', ''b.tif'', ''c.tif'', ''d.tif'']" by simp
  ultimately have n: "set [''d.tif'', ''c.tif'', ''b.tif'']
      \<noteq> set [''a.tif'', ''b.tif'', ''c.tif'', ''d.tif'']"
    by blast
  from r n show ?thesis by simp
qed

text \<open>
  C5, amended. For every positive ratio \<open>r\<close>, with a generator that keeps its contract: for
  \<open>N = 0\<close> both lists are empty; for \<open>r > N\<close> the labeled list is empty and the unlabeled
  list is a permutation of the whole input; for \<open>r = N\<close> the labeled list has exactly one
  element and the unlabeled list the other \<open>N - 1\<close>.
\<close>

theorem edge_cases:
  assumes "randbelow_ok rb" and "deref w all_images = Inr xs" and "0 < ratio"
  shows "\<exists>ls us.
           result_lists (generate_labeled_unlabeled_split sd rb w all_images ratio split_name)
             = Inr (ls, us)
           \<and> (xs = [] \<longrightarrow> ls = [] \<and> us = [])
           \<and> (int (length xs) < ratio \<longrightarrow> ls = [] \<and> mset us = mset xs \<and> set us = set xs)
           \<and> (ratio = int (length xs) \<longrightarrow> length ls = 1 \<and> length us = length xs - 1)"
proof -
  from shuffle_ok[OF assms(1)] obtain ys g where
    sh: "shuffle rb (sd 42) xs = Inr (ys, g)" and ms: "mset ys = mset xs" by blast
  have len: "length ys = length xs" by (rule shuffle_length[OF sh])
  let ?k = "int (length ys) div ratio"
  from assms(3) have nz: "ratio \<noteq> 0" by simp
  have res: "result_lists (generate_labeled_unlabeled_split sd rb w all_images ratio split_name)
      = Inr (slice_to ys ?k, slice_from ys ?k)"
    using sh nz by (simp add: result_lists_char[OF assms(2)])
  have empty: "xs = [] \<longrightarrow> slice_to ys ?k = [] \<and> slice_from ys ?k = []"
    using len by (auto simp: slice_to_def slice_from_def)
  have small: "int (length xs) < ratio \<longrightarrow>
      slice_to ys ?k = [] \<and> mset (slice_from ys ?k) = mset xs \<and> set (slice_from ys ?k) = set xs"
  proof
    assume "int (length xs) < ratio"
    with len have "?k = 0" by (simp add: div_pos_pos_trivial)
    with ms mset_eq_setD[OF ms] show "slice_to ys ?k = [] \<and> mset (slice_from ys ?k) = mset xs
        \<and> set (slice_from ys ?k) = set xs"
      by (simp add: slice_to_zero slice_from_zero)
  qed
  have same: "ratio = int (length xs) \<longrightarrow>
      length (slice_to ys ?k) = 1 \<and> length (slice_from ys ?k) = length xs - 1"
  proof
    assume r: "ratio = int (length xs)"
    with assms(3) len have "?k = 1" by simp
    moreover from assms(3) r have "Suc 0 \<le> length xs" by (cases xs) simp_all
    ultimately show "length (slice_to ys ?k) = 1 \<and> length (slice_from ys ?k) = length xs - 1"
      using len by (simp add: slice_to_def slice_from_def slice_index_def min_def)
  qed
  show ?thesis
    by (intro exI conjI, rule res, rule empty, rule small, rule same)
qed

theorem edge_cases_witness:
  "randbelow_ok lcg_randbelow
   \<and> deref sample_world 0 = Inr [''a.tif'', ''b.tif'', ''c.tif'', ''d.tif'']
   \<and> deref empty_world 0 = Inr []
   \<and> (0::int) < 32 \<and> (0::int) < 4
   \<and> int (length [''a.tif'', ''b.tif'', ''c.tif'', ''d.tif'']) < 32
   \<and> (4::int) = int (length [''a.tif'', ''b.tif'', ''c.tif'', ''d.tif''])
   \<and> (\<exists>ls us.
         result_lists (generate_labeled_unlabeled_split lcg_seed lcg_randbelow sample_world 0 32 ''Train'')
           = Inr (ls, us)
         \<and> ls = [] \<and> mset us = mset [''a.tif'', ''b.tif'', ''c.tif'', ''d.tif''])
   \<and> (\<exists>ls us.
         result_lists (generate_labeled_unlabeled_split lcg_seed lcg_randbelow sample_world 0 4 ''Train'')
           = Inr (ls, us)
         \<and> length ls = 1 \<and> length us = 3)
   \<and> (\<exists>ls us.
         result_lists (generate_labeled_unlabeled_split lcg_seed lcg_randbelow empty_world 0 4 ''Train'')
           = Inr (ls, us)
         \<and> ls = [] \<and> us = [])"
proof -
  let ?xs = "[''a.tif'', ''b.tif'', ''c.tif'', ''d.tif'']"
  have h32: "(0::int) < 32" and h4: "(0::int) < 4" by simp_all
  have lt: "int (length ?xs) < 32" by simp
  have eq: "(4::int) = int (length ?xs)" by simp
  from edge_cases[OF lcg_randbelow_ok deref_sample h32, of lcg_seed "''Train''"]
  obtain ls us where
    r1: "result_lists (generate_labeled_unlabeled_split lcg_seed lcg_randbelow sample_world 0 32 ''Train'')
           = Inr (ls, us)"
    and i1: "int (length ?xs) < 32 \<longrightarrow> ls = [] \<and> mset us = mset ?xs \<and> set us = set ?xs"
    by (elim exE conjE)
  from i1 lt have "ls = []" "mset us = mset ?xs" by (rule mp[THEN conjunct1], rule mp[THEN conjunct2, THEN conjunct1])
  with r1 have a: "\<exists>ls us.
         result_lists (generate_labeled_unlabeled_split lcg_seed lcg_randbelow sample_world 0 32 ''Train'')
           = Inr (ls, us)
         \<and> ls = [] \<and> mset us = mset ?xs"
    by (intro exI conjI)
  from edge_cases[OF lcg_randbelow_ok deref_sample h4, of lcg_seed "''Train''"]
  obtain ls' us' where
    r2: "result_lists (generate_labeled_unlabeled_split lcg_seed lcg_randbelow sample_world 0 4 ''Train'')
           = Inr (ls', us')"
    and i2: "4 = int (length ?xs) \<longrightarrow> length ls' = 1 \<and> length us' = length ?xs - 1"
    by (elim exE conjE)
  from i2 eq have l2: "length ls' = 1" and "length us' = length ?xs - 1"
    by (rule mp[THEN conjunct1], rule mp[THEN conjunct2])
  then have u2: "length us' = 3" by simp
  from r2 l2 u2 have b: "\<exists>ls us.
         result_lists (generate_labeled_unlabeled_split lcg_seed lcg_randbelow sample_world 0 4 ''Train'')
           = Inr (ls, us)
         \<and> length ls = 1 \<and> length us = 3"
    by (intro exI conjI)
  from edge_cases[OF lcg_randbelow_ok deref_empty h4, of lcg_seed "''Train''"]
  obtain ls'' us'' where
    r3: "result_lists (generate_labeled_unlabeled_split lcg_seed lcg_randbelow empty_world 0 4 ''Train'')
           = Inr (ls'', us'')"
    and i3: "([] :: string list) = [] \<longrightarrow> ls'' = [] \<and> us'' = []"
    by (elim exE conjE)
  from i3 have "ls'' = []" "us'' = []" by simp_all
  with r3 have c: "\<exists>ls us.
         result_lists (generate_labeled_unlabeled_split lcg_seed lcg_randbelow empty_world 0 4 ''Train'')
           = Inr (ls, us)
         \<and> ls = [] \<and> us = []"
    by (intro exI conjI)
  from lcg_randbelow_ok deref_sample deref_empty h32 h4 lt eq a b c show ?thesis
    by (intro conjI)
qed

section \<open>The effects of the partitioner\<close>

text \<open>
  C6, as the claim states it, fails: the call changes state outside the function, the
  module-level generator. From a state whose generator is at 7, the call on four
  identifiers leaves the generator at 31 (seeded with 42, then advanced by three draws).
\<close>

theorem split_effect_counterexample:
  "map_sum id (rng \<circ> snd)
     (generate_labeled_unlabeled_split lcg_seed lcg_randbelow sample_world 0 4 ''Train'') = Inr 31
   \<and> rng sample_world = 7"
proof -
  have nz: "(4::int) \<noteq> 0" by simp
  have call: "map_sum id (rng \<circ> snd)
      (generate_labeled_unlabeled_split lcg_seed lcg_randbelow sample_world 0 4 ''Train'') = Inr 31"
    using deref_sample shuffle_sample nz by (subst split_char) simp_all
  have before: "rng sample_world = 7" by (simp add: sample_world_def)
  from call before show ?thesis by simp
qed

text \<open>
  C6, amended. \<^verbatim>\<open>generate_labeled_unlabeled_split\<close> shuffles a copy: after the call the
  caller's list, every other list that existed before, the directories, the files and the
  output are unchanged, and the two lists returned are new and distinct objects. Its one
  effect beside its return value is on the module-level generator, which it leaves in the
  state reached from seed 42 by the draws of the shuffle, whatever its state before.
\<close>

theorem split_frame:
  assumes "randbelow_ok rb" and "deref w all_images = Inr xs" and "ratio \<noteq> 0"
  shows "\<exists>labeled unlabeled w' ys.
           generate_labeled_unlabeled_split sd rb w all_images ratio split_name
             = Inr ((labeled, unlabeled), w')
           \<and> deref w' all_images = Inr xs
           \<and> take (length (heap w)) (heap w') = heap w
           \<and> length (heap w) \<le> labeled \<and> length (heap w) \<le> unlabeled \<and> labeled \<noteq> unlabeled
           \<and> dirs w' = dirs w \<and> files w' = files w \<and> stdout w' = stdout w
           \<and> shuffle rb (sd 42) xs = Inr (ys, rng w')"
proof -
  from shuffle_ok[OF assms(1)] obtain ys g where
    sh: "shuffle rb (sd 42) xs = Inr (ys, g)" by blast
  let ?k = "int (length ys) div ratio"
  let ?w' = "w\<lparr>rng := g, heap := heap w @ [ys, slice_to ys ?k, slice_from ys ?k]\<rparr>"
  have call: "generate_labeled_unlabeled_split sd rb w all_images ratio split_name
      = Inr ((length (heap w) + 1, length (heap w) + 2), ?w')"
    using assms(2) sh assms(3) by (rule split_char)
  from assms(2) have a: "all_images < length (heap w)" "heap w ! all_images = xs"
    by (auto simp: deref_def split: if_splits)
  have keep: "deref ?w' all_images = Inr xs"
    using a by (simp add: deref_def nth_append)
  have old: "take (length (heap w)) (heap ?w') = heap w" by simp
  have fresh: "length (heap w) \<le> length (heap w) + 1" "length (heap w) \<le> length (heap w) + 2"
    "length (heap w) + 1 \<noteq> length (heap w) + 2" by simp_all
  have rest: "dirs ?w' = dirs w" "files ?w' = files w" "stdout ?w' = stdout w" by simp_all
  have gen: "shuffle rb (sd 42) xs = Inr (ys, rng ?w')" using sh by simp
  show ?thesis
    by (intro exI conjI, rule call, rule keep, rule old, (rule fresh)+, (rule rest)+, rule gen)
qed

theorem split_frame_witness:
  "randbelow_ok lcg_randbelow
   \<and> deref other_world 1 = Inr [''a.tif'', ''b.tif'', ''c.tif'', ''d.tif'']
   \<and> (4::int) \<noteq> 0
   \<and> (\<exists>labeled unlabeled w' ys.
           generate_labeled_unlabeled_split lcg_seed lcg_randbelow other_world 1 4 ''Train''
             = Inr ((labeled, unlabeled), w')
           \<and> deref w' 1 = Inr [''a.tif'', ''b.tif'', ''c.tif'', ''d.tif'']
           \<and> take (length (heap other_world)) (heap w') = heap other_world
           \<and> length (heap other_world) \<le> labeled \<and> length (heap other_world) \<le> unlabeled
           \<and> labeled \<noteq> unlabeled
           \<and> dirs w' = dirs other_world \<and> files w' = files other_world
           \<and> stdout w' = stdout other_world
           \<and> shuffle lcg_randbelow (lcg_seed 42) [''a.tif'', ''b.tif'', ''c.tif'', ''d.tif'']
               = Inr (ys, rng w'))"
proof -
  have h3: "(4::int) \<noteq> 0" by simp
  from split_frame[OF lcg_randbelow_ok deref_other h3, of lcg_seed "''Train''"]
    lcg_randbelow_ok deref_other h3
  show ?thesis by blast
qed

section \<open>Enumerating the images of a partition\<close>

text \<open>
  C7. For every base path and partition name: when the directory
  \<^verbatim>\<open><base>/<partition>/image\<close> does not exist, \<^verbatim>\<open>get_image_files\<close> returns the empty list,
  prints one warning line and changes nothing else (it does not raise); when it exists, the
  result is sorted in ascending lexicographic order and holds exactly the entries of the
  directory whose name ends in \<^verbatim>\<open>.tif\<close>, and the state is unchanged.
\<close>

theorem get_image_files_contract:
  "(dirs w [base_dir, split, ''image''] = None \<longrightarrow>
      fst (get_image_files w base_dir split) = []
      \<and> (\<exists>line. prefix ''Warning: '' line
            \<and> snd (get_image_files w base_dir split) = w\<lparr>stdout := stdout w @ [line]\<rparr>))
   \<and> (\<forall>entries. dirs w [base_dir, split, ''image''] = Some entries \<longrightarrow>
      sorted (fst (get_image_files w base_dir split))
      \<and> mset (fst (get_image_files w base_dir split))
          = mset (filter (\<lambda>name. suffix ''.tif'' name) entries)
      \<and> set (fst (get_image_files w base_dir split))
          = {name \<in> set entries. suffix ''.tif'' name}
      \<and> snd (get_image_files w base_dir split) = w)"
proof (intro conjI impI allI)
  assume n: "dirs w [base_dir, split, ''image''] = None"
  then show "fst (get_image_files w base_dir split) = []"
    by (simp add: get_image_files_def Let_def)
  let ?line = "''Warning: '' @ path_str [base_dir, split, ''image''] @ '' does not exist''"
  have "prefix ''Warning: '' ?line" by (rule prefixI) (rule refl)
  moreover from n have "snd (get_image_files w base_dir split) = w\<lparr>stdout := stdout w @ [?line]\<rparr>"
    by (simp add: get_image_files_def Let_def)
  ultimately show "\<exists>line. prefix ''Warning: '' line
      \<and> snd (get_image_files w base_dir split) = w\<lparr>stdout := stdout w @ [line]\<rparr>"
    by blast
next
  fix entries
  assume s: "dirs w [base_dir, split, ''image''] = Some entries"
  then have g: "get_image_files w base_dir split
      = (sort (filter (\<lambda>name. suffix ''.tif'' name) entries), w)"
    by (simp add: get_image_files_def Let_def)
  show "sorted (fst (get_image_files w base_dir split))" by (simp add: g)
  show "mset (fst (get_image_files w base_dir split))
      = mset (filter (\<lambda>name. suffix ''.tif'' name) entries)" by (simp add: g)
  show "set (fst (get_image_files w base_dir split))
      = {name \<in> set entries. suffix ''.tif'' name}" by (simp add: g)
  show "snd (get_image_files w base_dir split) = w" by (simp add: g)
qed

theorem get_image_files_contract_witness:
  "dirs disk_world [''data/gf-7-building-4bands'', ''Val'', ''image''] = None
   \<and> fst (get_image_files disk_world ''data/gf-7-building-4bands'' ''Val'') = []
   \<and> (\<exists>line. prefix ''Warning: '' line
         \<and> snd (get_image_files disk_world ''data/gf-7-building-4bands'' ''Val'')
             = disk_world\<lparr>stdout := stdout disk_world @ [line]\<rparr>)
   \<and> dirs disk_world [''data/gf-7-building-4bands'', ''Train'', ''image'']
       = Some [''d.tif'', ''b.tif'', ''notes.txt'', ''a.tif'', ''c.tif'']
   \<and> sorted (fst (get_image_files disk_world ''data/gf-7-building-4bands'' ''Train''))
   \<and> set (fst (get_image_files disk_world ''data/gf-7-building-4bands'' ''Train''))
       = {name \<in> set [''d.tif'', ''b.tif'', ''notes.txt'', ''a.tif'', ''c.tif'']. suffix ''.tif'' name}
   \<and> snd (get_image_files disk_world ''data/gf-7-building-4bands'' ''Train'') = disk_world"
  using get_image_files_contract[of disk_world "''data/gf-7-building-4bands''" "''Val''"]
    get_image_files_contract[of disk_world "''data/gf-7-building-4bands''" "''Train''"]
    disk_train disk_val
  by blast

section \<open>The line of a split file\<close>

text \<open>
  C8. \<^verbatim>\<open>create_split_line\<close> is a function of the identifier and the partition alone, and
  its value is the image path, one space and the label path, both built from the partition
  and the unchanged identifier (the extension stays); for \<^verbatim>\<open>tile_007.tif\<close> and \<^verbatim>\<open>Train\<close> it
  is \<^verbatim>\<open>Train/image/tile_007.tif Train/label/tile_007.tif\<close>.
\<close>

theorem create_split_line_format:
  "create_split_line image_name split
     = split @ ''/image/'' @ image_name @ '' '' @ split @ ''/label/'' @ image_name
   \<and> create_split_line ''tile_007.tif'' ''Train''
     = ''Train/image/tile_007.tif Train/label/tile_007.tif''"
  by (simp add: create_split_line_def Let_def)

section \<open>Nesting across ratios\<close>

text \<open>
  C9. For every list of identifiers and any two positive ratios \<open>r1 \<le> r2\<close>, the labeled
  list for \<open>r2\<close> is a prefix of the labeled list for \<open>r1\<close>, in whatever states the two
  calls are made: every identifier labeled at the larger ratio is labeled at the smaller.
\<close>

theorem labeled_nested:
  assumes "randbelow_ok rb" and "deref w1 a1 = Inr xs" and "deref w2 a2 = Inr xs"
    and "0 < r1" and "r1 \<le> r2"
  shows "\<exists>l1 u1 l2 u2.
           result_lists (generate_labeled_unlabeled_split sd rb w1 a1 r1 n1) = Inr (l1, u1)
           \<and> result_lists (generate_labeled_unlabeled_split sd rb w2 a2 r2 n2) = Inr (l2, u2)
           \<and> prefix l2 l1 \<and> set l2 \<subseteq> set l1"
proof -
  from shuffle_ok[OF assms(1)] obtain ys g where
    sh: "shuffle rb (sd 42) xs = Inr (ys, g)" by blast
  let ?n = "int (length ys)"
  from assms(4,5) have nz: "r1 \<noteq> 0" "r2 \<noteq> 0" by auto
  have r1: "result_lists (generate_labeled_unlabeled_split sd rb w1 a1 r1 n1)
      = Inr (slice_to ys (?n div r1), slice_from ys (?n div r1))"
    using sh nz by (simp add: result_lists_char[OF assms(2)])
  have r2: "result_lists (generate_labeled_unlabeled_split sd rb w2 a2 r2 n2)
      = Inr (slice_to ys (?n div r2), slice_from ys (?n div r2))"
    using sh nz by (simp add: result_lists_char[OF assms(3)])
  have le: "?n div r2 \<le> ?n div r1"
    using assms(4,5) by (simp add: zdiv_mono2)
  have nn: "0 \<le> ?n div r2" using assms(4,5) by (simp add: pos_imp_zdiv_nonneg_iff)
  from le nn have "slice_index (length ys) (?n div r2) \<le> slice_index (length ys) (?n div r1)"
    by (simp add: slice_index_def)
  then have pre: "prefix (slice_to ys (?n div r2)) (slice_to ys (?n div r1))"
    unfolding slice_to_def by (rule take_prefix_mono)
  then have "set (slice_to ys (?n div r2)) \<subseteq> set (slice_to ys (?n div r1))"
    by (rule set_mono_prefix)
  with r1 r2 pre show ?thesis by blast
qed

theorem labeled_nested_witness:
  "randbelow_ok lcg_randbelow
   \<and> deref sample_world 0 = Inr [''a.tif'', ''b.tif'', ''c.tif'', ''d.tif'']
   \<and> deref other_world 1 = Inr [''a.tif'', ''b.tif'', ''c.tif'', ''d.tif'']
   \<and> (0::int) < 2 \<and> (2::int) \<le> 4
   \<and> (\<exists>l1 u1 l2 u2.
         result_lists (generate_labeled_unlabeled_split lcg_seed lcg_randbelow sample_world 0 2 ''Train'')
           = Inr (l1, u1)
         \<and> result_lists (generate_labeled_unlabeled_split lcg_seed lcg_randbelow other_world 1 4 ''Train'')
           = Inr (l2, u2)
         \<and> prefix l2 l1 \<and> set l2 \<subseteq> set l1)"
proof -
  have h4: "(0::int) < 2" and h5: "(2::int) \<le> 4" by simp_all
  from labeled_nested[OF lcg_randbelow_ok deref_sample deref_other h4 h5,
      of lcg_seed "''Train''" "''Train''"] lcg_randbelow_ok deref_sample deref_other
  show ?thesis by simp
qed

section \<open>The small variant of an empty list\<close>

text \<open>
  C10. The small variant of the empty list is empty, not of size \<open>max(1, 0) = 1\<close>: the lower
  bound of one element holds for the non-empty lists only. In a run of \<^verbatim>\<open>main\<close> whose labeled
  list for the ratio 32 is empty, \<^verbatim>\<open>1_32/labeled.txt\<close> and \<^verbatim>\<open>small_1_32/labeled.txt\<close> are both
  empty files.
\<close>

theorem small_variant_of_empty:
  assumes "deref v a = Inr (fst (get_image_files w ''data/gf-7-building-4bands'' ''Train''))"
    and "result_lists (generate_labeled_unlabeled_split sd rb v a 32 nm) = Inr ([], u32)"
  shows "small_variant ([] :: string list) = []
     \<and> length (small_variant ([] :: string list)) \<noteq> max 1 (length ([] :: string list) div 100)
     \<and> (\<forall>xs :: string list. xs \<noteq> [] \<longrightarrow> 1 \<le> length (small_variant xs))
     \<and> (\<exists>w'. main sd rb w = Inr w'
           \<and> files w' [''UniMatch-V2/splits/gf7-building'', ''1_32'', ''labeled.txt''] = Some []
           \<and> files w' [''UniMatch-V2/splits/gf7-building'', ''small_1_32'', ''labeled.txt'']
               = Some [])"
proof -
  have e: "small_variant ([] :: string list) = []" by (rule small_variant_Nil)
  have n: "length (small_variant ([] :: string list)) \<noteq> max 1 (length ([] :: string list) div 100)"
    by (simp add: small_variant_Nil)
  have b: "\<forall>xs :: string list. xs \<noteq> [] \<longrightarrow> 1 \<le> length (small_variant xs)"
    by (simp add: small_variant_length)
  let ?train = "fst (get_image_files w ''data/gf-7-building-4bands'' ''Train'')"
  from result_lists_InrD[OF assms(1) assms(2)] obtain ys g where
    sh: "shuffle rb (sd 42) ?train = Inr (ys, g)"
    and l32: "slice_to ys (int (length ys) div 32) = []"
    by auto
  from main_effect[where sd=sd and w=w, OF refl refl refl sh] obtain w' where
    run: "main sd rb w = Inr w'"
    and fl: "files w' = files_after_main (files w) ?train
        (fst (get_image_files w ''data/gf-7-building-4bands'' ''Val''))
        (fst (get_image_files w ''data/gf-7-building-4bands'' ''Test'')) ys"
    by blast
  have f1: "files w' [''UniMatch-V2/splits/gf7-building'', ''1_32'', ''labeled.txt''] = Some []"
    by (simp only: fl files_after_main_parent l32 split_file_text_Nil)
  have f2: "files w' [''UniMatch-V2/splits/gf7-building'', ''small_1_32'', ''labeled.txt''] = Some []"
    by (simp only: fl files_after_main_small l32 small_variant_Nil split_file_text_Nil)
  from run f1 f2 have m: "\<exists>w'. main sd rb w = Inr w'
      \<and> files w' [''UniMatch-V2/splits/gf7-building'', ''1_32'', ''labeled.txt''] = Some []
      \<and> files w' [''UniMatch-V2/splits/gf7-building'', ''small_1_32'', ''labeled.txt''] = Some []"
    by blast
  from e n b m show ?thesis by (intro conjI)
qed

theorem small_variant_of_empty_witness:
  "deref sample_world 0
     = Inr (fst (get_image_files disk_world ''data/gf-7-building-4bands'' ''Train''))
   \<and> result_lists (generate_labeled_unlabeled_split lcg_seed lcg_randbelow sample_world 0 32 ''Train'')
       = Inr ([], [''a.tif'', ''d.tif'', ''c.tif'', ''b.tif''])
   \<and> small_variant ([] :: string list) = []
   \<and> length (small_variant [''a.tif'']) = 1
   \<and> (\<exists>w'. main lcg_seed lcg_randbelow disk_world = Inr w'
         \<and> files w' [''UniMatch-V2/splits/gf7-building'', ''1_32'', ''labeled.txt''] = Some []
         \<and> files w' [''UniMatch-V2/splits/gf7-building'', ''small_1_32'', ''labeled.txt'']
             = Some [])"
proof -
  note t = small_variant_of_empty[OF deref_sample_train result_lists_sample_32]
  from t have e: "small_variant ([] :: string list) = []" by blast
  from t have "\<forall>xs :: string list. xs \<noteq> [] \<longrightarrow> 1 \<le> length (small_variant xs)" by blast
  then have "1 \<le> length (small_variant [''a.tif''])" by simp
  moreover have "length (small_variant [''a.tif'']) \<le> 1"
    using prefix_length_le[OF small_variant_prefix[of "[''a.tif'']"]] by simp
  ultimately have l: "length (small_variant [''a.tif'']) = 1" by simp
  from t have m: "\<exists>w'. main lcg_seed lcg_randbelow disk_world = Inr w'
      \<and> files w' [''UniMatch-V2/splits/gf7-building'', ''1_32'', ''labeled.txt''] = Some []
      \<and> files w' [''UniMatch-V2/splits/gf7-building'', ''small_1_32'', ''labeled.txt''] = Some []"
    by blast
  from deref_sample_train result_lists_sample_32 e l m show ?thesis by (intro conjI)
qed

end
